theory Spec2Isabelle
  imports Main
begin

section \<open>Exceptions and effects\<close>

text \<open>
  The loops of \<^verbatim>\<open>pytorch_lightning/loops\<close> are Python objects whose methods mutate the
  loop, its child loop and the shared trainer, call out to collaborators (hooks, logger,
  profiler, accelerator, checkpoint callbacks) and may raise. A method is modelled as a
  function from the state before the call to an outcome and the state at the moment the
  method returned or raised: \<open>Inr v\<close> is a normal return of \<open>v\<close>, \<open>Inl e\<close> is the
  exception \<open>e\<close> leaving the method. Mutations made before a raise are kept, as in Python.
\<close>

datatype exn =
    StopIteration
  | TypeError
  | AssertionError
  | Exception string
  | BaseException string

text \<open>
  \<open>is_Exception e\<close>: the exception is an instance of Python's \<^verbatim>\<open>Exception\<close> class
  (what \<^verbatim>\<open>suppress(Exception)\<close> swallows). \<open>BaseException n\<close> stands for the classes
  outside it, such as \<^verbatim>\<open>KeyboardInterrupt\<close>.
\<close>

fun is_Exception :: "exn \<Rightarrow> bool" where
  "is_Exception (BaseException n) = False"
| "is_Exception e = True"

type_synonym ('s, 'a) py = "'s \<Rightarrow> (exn + 'a) \<times> 's"

definition py_return :: "'a \<Rightarrow> ('s, 'a) py" where
  "py_return a s = (Inr a, s)"

definition py_raise :: "exn \<Rightarrow> ('s, 'a) py" where
  "py_raise e s = (Inl e, s)"

definition py_bind :: "('s, 'a) py \<Rightarrow> ('a \<Rightarrow> ('s, 'b) py) \<Rightarrow> ('s, 'b) py" where
  "py_bind m f s = (case m s of (Inl e, s') \<Rightarrow> (Inl e, s') | (Inr a, s') \<Rightarrow> f a s')"

text \<open>A block of statements, run in order; the first exception leaves the block.\<close>

fun py_seq :: "('s, unit) py list \<Rightarrow> ('s, unit) py" where
  "py_seq [] = py_return ()"
| "py_seq (m # ms) = py_bind m (\<lambda>_. py_seq ms)"

text \<open>A statement that only mutates the state.\<close>

definition py_modify :: "('s \<Rightarrow> 's) \<Rightarrow> ('s, unit) py" where
  "py_modify f s = (Inr (), f s)"

text \<open>\<^verbatim>\<open>with suppress(Exception): m\<close>\<close>

definition suppress_Exception :: "('s, unit) py \<Rightarrow> ('s, unit) py" where
  "suppress_Exception m s =
     (case m s of
        (Inl e, s') \<Rightarrow> if is_Exception e then (Inr (), s') else (Inl e, s')
      | (Inr u, s') \<Rightarrow> (Inr u, s'))"

section \<open>The trainer and the collaborators\<close>

record checkpoint_callback =
  save_last :: bool
  verbose :: bool

text \<open>
  The fields of the trainer that the loops read or write. \<open>has_trained\<close> is
  \<^verbatim>\<open>trainer.checkpoint_connector.has_trained\<close>; \<open>logger\<close> is \<open>None\<close> when the trainer
  has no logger, and otherwise holds the logger's name.
\<close>

record trainer =
  should_stop :: bool
  num_training_batches :: int
  num_val_batches :: "int list"
  reload_dataloaders_every_epoch :: bool
  disable_validation :: bool
  accumulate_grad_batches :: int
  has_trained :: bool
  checkpoint_callbacks :: "checkpoint_callback list"
  logger :: "string option"
  running_stage :: "string option"
  testing :: bool
  global_rank :: int
  world_size :: int
  current_fx_name :: "string option"

text \<open>
  A call that leaves the loops for a collaborator. The two calls that the source wraps
  in the decrement/increment pair of the global step carry the step the collaborator
  observes.
\<close>

datatype call =
    Call_hook string
  | Results_to_device
  | Reset_train_dataloader
  | Sampler_set_epoch int
  | Accumulation_scheduler_on_train_epoch_start
  | Logger_connector_on_epoch_start
  | Process_dataloader
  | Get_profiled_train_dataloader
  | Profiler_start string
  | Profiler_stop string
  | Profiler_describe
  | Training_loop_run
  | Update_train_epoch_metrics int
  | Update_lr_schedulers string
  | Checkpoint_on_validation_end nat int
  | Logger_finalize string
  | Accelerator_on_train_end
  | Logger_connector_on_batch_start
  | Logger_connector_on_evaluation_batch_start int int int
  | Logger_connector_on_batch_end
  | Logger_connector_update_eval_step_metrics
  | Accelerator_test_step
  | Accelerator_validation_step
  | Track_eval_loss_history int int
  | Track_output_for_epoch_end

text \<open>Messages written with \<^verbatim>\<open>log.info\<close> and \<^verbatim>\<open>rank_zero_info\<close>.\<close>

datatype log_msg =
    Stop_deferred "int option" "int option"
  | Saving_latest_checkpoint

section \<open>Loop (base.py)\<close>

text \<open>
  The fields of \<^verbatim>\<open>Loop.__init__\<close>, for a loop that \<^verbatim>\<open>connect\<close> has bound to a trainer.
  The trainer is shared by reference between the loops; here it is a component of the
  state. \<open>calls\<close> and \<open>info_log\<close> record, in order, the collaborator calls made and the
  messages logged: they are how a side effect is observed.
\<close>

record loop =
  iteration_count :: int
  trainer :: trainer
  calls :: "call list"
  info_log :: "log_msg list"

definition increment_iteration :: "int \<Rightarrow> int" where
  "increment_iteration iteration = iteration + 1"

section \<open>FitLoop (fit_loop.py): state, construction, properties\<close>

text \<open>
  The fields of the child \<^verbatim>\<open>TrainingEpochLoop\<close> that \<^verbatim>\<open>FitLoop\<close> reads and writes
  through its properties. \<open>accumulated_loss\<close> is \<^verbatim>\<open>batch_loop.accumulated_loss\<close>: the
  window length of the running accumulator, \<open>None\<close> before the first epoch.

  \<open>teardown_already_run\<close> is the field \<^verbatim>\<open>_teardown_already_run\<close>. The field \<^verbatim>\<open>results\<close>,
  which no method of the loop reads, and the properties that only forward to the child
  loop without a use in this file (\<^verbatim>\<open>total_batch_idx\<close>, \<^verbatim>\<open>batch_idx\<close>, \<^verbatim>\<open>split_idx\<close>,
  \<^verbatim>\<open>running_loss\<close>, \<^verbatim>\<open>skip_backward\<close>) are left out.
\<close>

record training_epoch_loop =
  global_step :: int
  min_steps :: "int option"
  max_steps :: "int option"
  batches_seen :: int
  accumulated_loss :: "int option"

record fit_loop = loop +
  teardown_already_run :: bool
  max_epochs :: "int option"
  min_epochs :: "int option"
  training_loop :: training_epoch_loop

text \<open>
  Modelled from the spec: the constructor of \<^verbatim>\<open>TrainingEpochLoop\<close>
  (\<^verbatim>\<open>training_epoch_loop.py\<close> is not part of the sources). It keeps the two step bounds
  ("\<open>min_steps\<close>, \<open>max_steps\<close>: all forwarded to the child training-epoch loop") and
  starts its counters at zero.
\<close>

definition TrainingEpochLoop_init :: "int option \<Rightarrow> int option \<Rightarrow> training_epoch_loop" where
  "TrainingEpochLoop_init min_steps' max_steps' =
     \<lparr> global_step = 0, min_steps = min_steps', max_steps = max_steps',
       batches_seen = 0, accumulated_loss = None \<rparr>"

text \<open>
  \<^verbatim>\<open>FitLoop.__init__\<close> followed by \<^verbatim>\<open>connect(trainer)\<close>.
\<close>

definition FitLoop_init ::
  "trainer \<Rightarrow> int option \<Rightarrow> int option \<Rightarrow> int option \<Rightarrow> int option \<Rightarrow> fit_loop" where
  "FitLoop_init t min_epochs' max_epochs' min_steps' max_steps' =
     \<lparr> iteration_count = 0, trainer = t, calls = [], info_log = [],
       teardown_already_run = False,
       max_epochs = (if max_epochs' = None \<and> max_steps' = None then Some 1000 else max_epochs'),
       min_epochs = (if min_epochs' = None \<and> min_steps' = None then Some 1 else min_epochs'),
       training_loop = TrainingEpochLoop_init min_steps' max_steps' \<rparr>"

definition current_epoch :: "fit_loop \<Rightarrow> int" where
  "current_epoch s = iteration_count s"

definition set_current_epoch :: "int \<Rightarrow> fit_loop \<Rightarrow> fit_loop" where
  "set_current_epoch v s = s\<lparr>iteration_count := v\<rparr>"

definition FitLoop_global_step :: "fit_loop \<Rightarrow> int" where
  "FitLoop_global_step s = global_step (training_loop s)"

definition set_global_step :: "int \<Rightarrow> fit_loop \<Rightarrow> fit_loop" where
  "set_global_step v s = s\<lparr>training_loop := (training_loop s)\<lparr>global_step := v\<rparr>\<rparr>"

definition FitLoop_min_steps :: "fit_loop \<Rightarrow> int option" where
  "FitLoop_min_steps s = min_steps (training_loop s)"

definition FitLoop_max_steps :: "fit_loop \<Rightarrow> int option" where
  "FitLoop_max_steps s = max_steps (training_loop s)"

text \<open>Python's truth value of an \<^verbatim>\<open>Optional[int]\<close>: \<^verbatim>\<open>None\<close> and \<^verbatim>\<open>0\<close> are false.\<close>

fun truthy :: "int option \<Rightarrow> bool" where
  "truthy None = False"
| "truthy (Some n) = (n \<noteq> 0)"

subsection \<open>FitLoop.done\<close>

text \<open>
  The locals of the property, in the order of the source. \<open>met_min_epochs\<close> and
  \<open>met_min_steps\<close> are the two conditional expressions of the early-stopping branch.
\<close>

definition stop_steps :: "fit_loop \<Rightarrow> bool" where
  "stop_steps s =
     (case FitLoop_max_steps s of None \<Rightarrow> False | Some m \<Rightarrow> FitLoop_global_step s \<ge> m)"

definition stop_epochs :: "fit_loop \<Rightarrow> bool" where
  "stop_epochs s =
     (case max_epochs s of None \<Rightarrow> False | Some m \<Rightarrow> current_epoch s \<ge> m)"

definition met_min_epochs :: "fit_loop \<Rightarrow> bool" where
  "met_min_epochs s =
     (if truthy (min_epochs s) then current_epoch s \<ge> the (min_epochs s) else True)"

definition met_min_steps :: "fit_loop \<Rightarrow> bool" where
  "met_min_steps s =
     (if truthy (FitLoop_min_steps s) then FitLoop_global_step s \<ge> the (FitLoop_min_steps s)
      else True)"

text \<open>
  The property returns its value and the state it leaves: the branch that defers a stop
  request logs a message and clears \<^verbatim>\<open>trainer.should_stop\<close>.
\<close>

definition FitLoop_done :: "fit_loop \<Rightarrow> bool \<times> fit_loop" where
  "FitLoop_done s =
     (if should_stop (trainer s) then
        if met_min_epochs s \<and> met_min_steps s then
          (stop_steps s \<or> True \<or> stop_epochs s, s)
        else
          (stop_steps s \<or> False \<or> stop_epochs s,
           s\<lparr> trainer := (trainer s)\<lparr>should_stop := False\<rparr>,
              info_log := info_log s @ [Stop_deferred (min_epochs s) (FitLoop_min_steps s)] \<rparr>)
      else (stop_steps s \<or> False \<or> stop_epochs s, s))"

section \<open>Calls to collaborators\<close>

text \<open>
  The collaborators are not part of the loops: their behaviour is a parameter. \<open>collab\<close>
  gives, for every call that returns nothing the loops use, its outcome and what it does
  to the trainer. A collaborator may change any field of the trainer and may raise; it
  does not write the fields of the loops themselves (the iteration count, the bounds,
  the teardown flag, the counters of the child loop), which only the loops' own methods
  and the run of the child loop assign.
\<close>

record env =
  collab :: "call \<Rightarrow> trainer \<Rightarrow> (exn + unit) \<times> trainer"

definition collab_call ::
  "call \<Rightarrow> (trainer \<Rightarrow> (exn + 'a) \<times> trainer) \<Rightarrow> ('z loop_scheme, 'a) py" where
  "collab_call c f s =
     (case f (trainer s) of (r, t') \<Rightarrow> (r, s\<lparr>trainer := t', calls := calls s @ [c]\<rparr>))"

definition call :: "'e env_scheme \<Rightarrow> call \<Rightarrow> ('z loop_scheme, unit) py" where
  "call E c = collab_call c (collab E c)"

text \<open>\<^verbatim>\<open>try: m finally: f\<close>\<close>

definition py_finally :: "('s, 'a) py \<Rightarrow> ('s, unit) py \<Rightarrow> ('s, 'a) py" where
  "py_finally m f s =
     (case m s of (r, s') \<Rightarrow>
        (case f s' of (Inl e, s'') \<Rightarrow> (Inl e, s'') | (Inr u, s'') \<Rightarrow> (r, s'')))"

text \<open>
  Modelled from the spec: \<^verbatim>\<open>with self.trainer.profiler.profile(name): body\<close>. The
  profiler is a collaborator; the spec gives its contract as "scoped acquisition of a
  named profiling region, released automatically at region exit".
\<close>

definition profile :: "'e env_scheme \<Rightarrow> string \<Rightarrow> ('z loop_scheme, 'a) py \<Rightarrow> ('z loop_scheme, 'a) py" where
  "profile E name body =
     py_bind (call E (Profiler_start name)) (\<lambda>_. py_finally body (call E (Profiler_stop name)))"

section \<open>Loop.run (base.py)\<close>

text \<open>
  The methods a concrete loop defines or overrides, as a record: \<open>'s\<close> is the state
  of the loop, \<open>'a\<close> the arguments of \<^verbatim>\<open>run\<close>, \<open>'r\<close> the result of \<^verbatim>\<open>on_run_end\<close>.
\<close>

record ('s, 'a, 'r) loop_methods =
  m_done :: "('s, bool) py"
  m_reset :: "('s, unit) py"
  m_on_run_start :: "'a \<Rightarrow> ('s, unit) py"
  m_on_advance_start :: "'a \<Rightarrow> ('s, unit) py"
  m_advance :: "'a \<Rightarrow> ('s, unit) py"
  m_on_advance_end :: "('s, unit) py"
  m_on_run_end :: "('s, 'r) py"

text \<open>The hooks of the base class do nothing.\<close>

definition Loop_on_run_start :: "'a \<Rightarrow> ('s, unit) py" where
  "Loop_on_run_start args = py_return ()"

definition Loop_on_advance_start :: "'a \<Rightarrow> ('s, unit) py" where
  "Loop_on_advance_start args = py_return ()"

definition Loop_on_advance_end :: "('s, unit) py" where
  "Loop_on_advance_end = py_return ()"

definition Loop_on_run_end :: "('s, unit) py" where
  "Loop_on_run_end = py_return ()"

text \<open>The body of the \<^verbatim>\<open>try\<close> block of \<^verbatim>\<open>Loop.run\<close>.\<close>

definition Loop_iteration ::
  "('z loop_scheme, 'a, 'r) loop_methods \<Rightarrow> 'a \<Rightarrow> ('z loop_scheme, unit) py" where
  "Loop_iteration L args =
     py_seq [
       m_on_advance_start L args,
       m_advance L args,
       m_on_advance_end L,
       py_modify (\<lambda>s. s\<lparr>iteration_count := increment_iteration (iteration_count s)\<rparr>)]"

text \<open>
  The \<^verbatim>\<open>while not self.done\<close> loop. It need not terminate: the result is \<open>None\<close>
  when it does not. \<^verbatim>\<open>StopIteration\<close> from the \<^verbatim>\<open>try\<close> block leaves the loop; any other
  exception, and any exception of \<^verbatim>\<open>done\<close>, leaves \<^verbatim>\<open>run\<close>.
\<close>

partial_function (option) Loop_while ::
  "('z loop_scheme, 'a, 'r) loop_methods \<Rightarrow> 'a \<Rightarrow> 'z loop_scheme
     \<Rightarrow> ((exn + unit) \<times> 'z loop_scheme) option" where
  "Loop_while L args s =
     (case m_done L s of
        (Inl e, s1) \<Rightarrow> Some (Inl e, s1)
      | (Inr d, s1) \<Rightarrow>
          if d then Some (Inr (), s1)
          else (case Loop_iteration L args s1 of
                  (Inl e, s2) \<Rightarrow>
                    if e = StopIteration then Some (Inr (), s2) else Some (Inl e, s2)
                | (Inr u, s2) \<Rightarrow> Loop_while L args s2))"

declare Loop_while.simps [code]

definition Loop_run ::
  "('z loop_scheme, 'a, 'r) loop_methods \<Rightarrow> 'a \<Rightarrow> 'z loop_scheme
     \<Rightarrow> ((exn + 'r) \<times> 'z loop_scheme) option" where
  "Loop_run L args s =
     (case m_reset L s of
        (Inl e, s1) \<Rightarrow> Some (Inl e, s1)
      | (Inr u, s1) \<Rightarrow>
          (case m_on_run_start L args s1 of
             (Inl e, s2) \<Rightarrow> Some (Inl e, s2)
           | (Inr u, s2) \<Rightarrow>
               (case Loop_while L args s2 of
                  None \<Rightarrow> None
                | Some (Inl e, s3) \<Rightarrow> Some (Inl e, s3)
                | Some (Inr u, s3) \<Rightarrow> Some (m_on_run_end L s3))))"

text \<open>
  \<open>iterations L args s s'\<close>: starting the \<^verbatim>\<open>while\<close> loop in \<open>s\<close>, some number of
  complete iterations (\<^verbatim>\<open>done\<close> false, the \<^verbatim>\<open>try\<close> block ended normally) lead to \<open>s'\<close>,
  where the loop tests \<^verbatim>\<open>done\<close> again.
\<close>

inductive iterations ::
  "('z loop_scheme, 'a, 'r) loop_methods \<Rightarrow> 'a \<Rightarrow> 'z loop_scheme \<Rightarrow> 'z loop_scheme \<Rightarrow> bool"
  for L args where
  iterations_refl: "iterations L args s s"
| iterations_step:
    "m_done L s = (Inr False, s1) \<Longrightarrow> Loop_iteration L args s1 = (Inr (), s2)
     \<Longrightarrow> iterations L args s2 s' \<Longrightarrow> iterations L args s s'"

code_pred iterations .

section \<open>FitLoop (fit_loop.py): methods\<close>

text \<open>
  \<open>training_loop_run\<close> is \<^verbatim>\<open>self.training_loop.run(train_dataloader)\<close>: the child loop
  returns the epoch's output or \<^verbatim>\<open>None\<close> (or raises), and changes its own counters and
  the trainer. \<open>should_skip_evaluation\<close> is the method of the trainer's evaluation loop,
  applied to \<^verbatim>\<open>trainer.num_val_batches\<close>.
\<close>

record fit_env = env +
  training_loop_run ::
    "training_epoch_loop \<Rightarrow> trainer \<Rightarrow> (exn + int list option) \<times> training_epoch_loop \<times> trainer"
  should_skip_evaluation :: "int list \<Rightarrow> bool"

definition FitLoop_reset :: "(fit_loop, unit) py" where
  "FitLoop_reset = py_modify (\<lambda>s. s\<lparr>iteration_count := 0\<rparr>)"

definition FitLoop_on_run_start :: "'e fit_env_scheme \<Rightarrow> unit \<Rightarrow> (fit_loop, unit) py" where
  "FitLoop_on_run_start E args =
     py_seq [call E Results_to_device, call E (Call_hook ''on_train_start'')]"

definition FitLoop_on_advance_start :: "'e fit_env_scheme \<Rightarrow> unit \<Rightarrow> (fit_loop, unit) py" where
  "FitLoop_on_advance_start E args =
     py_seq [
       (\<lambda>s. if current_epoch s \<noteq> 0 \<and> reload_dataloaders_every_epoch (trainer s)
             then call E Reset_train_dataloader s else py_return () s),
       suppress_Exception (\<lambda>s. call E (Sampler_set_epoch (current_epoch s)) s),
       call E Accumulation_scheduler_on_train_epoch_start,
       py_modify (\<lambda>s. s\<lparr>training_loop := (training_loop s)
             \<lparr>accumulated_loss := Some (accumulate_grad_batches (trainer s))\<rparr>\<rparr>),
       call E Logger_connector_on_epoch_start,
       call E (Call_hook ''on_epoch_start''),
       call E (Call_hook ''on_train_epoch_start'')]"

definition run_training_loop :: "'e fit_env_scheme \<Rightarrow> (fit_loop, int list option) py" where
  "run_training_loop E s =
     (case training_loop_run E (training_loop s) (trainer s) of
        (r, tl', t') \<Rightarrow>
          (r, s\<lparr>trainer := t', calls := calls s @ [Training_loop_run], training_loop := tl'\<rparr>))"

definition FitLoop_advance :: "'e fit_env_scheme \<Rightarrow> unit \<Rightarrow> (fit_loop, unit) py" where
  "FitLoop_advance E args =
     py_seq [
       call E Process_dataloader,
       call E Get_profiled_train_dataloader,
       profile E ''run_training_epoch''
         (py_bind (run_training_loop E) (\<lambda>epoch_output.
            if epoch_output = None then py_return ()
            else py_seq [
              py_modify (\<lambda>s. set_global_step (FitLoop_global_step s - 1) s),
              (\<lambda>s. call E (Update_train_epoch_metrics (FitLoop_global_step s)) s),
              py_modify (\<lambda>s. set_global_step (FitLoop_global_step s + 1) s)]))]"

definition check_checkpoint_callback :: "'e fit_env_scheme \<Rightarrow> bool \<Rightarrow> bool \<Rightarrow> (fit_loop, unit) py" where
  "check_checkpoint_callback E should_update is_last s =
     (if should_update \<and> has_trained (trainer s) then
        (let callbacks = checkpoint_callbacks (trainer s) in
         py_seq (
           (\<lambda>s. if is_last \<and> list_ex (\<lambda>cb. save_last cb \<and> verbose cb) callbacks
                 then py_modify (\<lambda>s. s\<lparr>info_log := info_log s @ [Saving_latest_checkpoint]\<rparr>) s
                 else py_return () s)
           # map (\<lambda>i s. call E (Checkpoint_on_validation_end i (FitLoop_global_step s)) s)
                 [0 ..< length callbacks]) s)
      else py_return () s)"

definition FitLoop_on_advance_end :: "'e fit_env_scheme \<Rightarrow> (fit_loop, unit) py" where
  "FitLoop_on_advance_end E s =
     (if batches_seen (training_loop s) = 0 then py_return () s
      else py_seq [
        call E (Update_lr_schedulers ''epoch''),
        (\<lambda>s. let did_train_only = (disable_validation (trainer s)
                     \<or> should_skip_evaluation E (num_val_batches (trainer s)))
              in if did_train_only then
                   py_seq [
                     py_modify (\<lambda>s. set_global_step (FitLoop_global_step s - 1) s),
                     check_checkpoint_callback E True False,
                     py_modify (\<lambda>s. set_global_step (FitLoop_global_step s + 1) s)] s
                 else py_return () s)] s)"

definition FitLoop_on_run_end :: "'e fit_env_scheme \<Rightarrow> (fit_loop, unit) py" where
  "FitLoop_on_run_end E s =
     (if teardown_already_run s then py_return () s
      else py_seq [
        py_modify (\<lambda>s. s\<lparr>teardown_already_run := True\<rparr>),
        py_modify (\<lambda>s. set_current_epoch (current_epoch s - 1) s),
        py_modify (\<lambda>s. s\<lparr>training_loop :=
             (training_loop s)\<lparr>global_step := global_step (training_loop s) - 1\<rparr>\<rparr>),
        check_checkpoint_callback E True True,
        py_modify (\<lambda>s. s\<lparr>training_loop :=
             (training_loop s)\<lparr>global_step := global_step (training_loop s) + 1\<rparr>\<rparr>),
        call E (Call_hook ''on_train_end''),
        (\<lambda>s. if logger (trainer s) \<noteq> None then call E (Logger_finalize ''success'') s
              else py_return () s),
        call E Profiler_describe,
        call E Accelerator_on_train_end,
        py_modify (\<lambda>s. s\<lparr>trainer := (trainer s)\<lparr>running_stage := None\<rparr>\<rparr>)] s)"

definition FitLoop_methods :: "'e fit_env_scheme \<Rightarrow> (fit_loop, unit, unit) loop_methods" where
  "FitLoop_methods E =
     \<lparr> m_done = (\<lambda>s. case FitLoop_done s of (d, s') \<Rightarrow> (Inr d, s')),
       m_reset = FitLoop_reset,
       m_on_run_start = FitLoop_on_run_start E,
       m_on_advance_start = FitLoop_on_advance_start E,
       m_advance = FitLoop_advance E,
       m_on_advance_end = FitLoop_on_advance_end E,
       m_on_run_end = FitLoop_on_run_end E \<rparr>"

definition should_skip_training :: "fit_loop \<Rightarrow> bool \<times> fit_loop" where
  "should_skip_training s =
     (case FitLoop_done s of (d, s') \<Rightarrow> (d \<or> num_training_batches (trainer s') = 0, s'))"

text \<open>
  \<^verbatim>\<open>FitLoop.run\<close>: \<^verbatim>\<open>Loop.run\<close> unless training is skipped; then it returns \<^verbatim>\<open>None\<close>
  at once.
\<close>

definition FitLoop_run :: "'e fit_env_scheme \<Rightarrow> fit_loop \<Rightarrow> ((exn + unit) \<times> fit_loop) option" where
  "FitLoop_run E s =
     (case should_skip_training s of
        (skip, s') \<Rightarrow> if \<not> skip then Loop_run (FitLoop_methods E) () s' else Some (Inr (), s'))"

section \<open>EvaluationLoop (evaluation_loop.py)\<close>

text \<open>
  A step output is a \<^verbatim>\<open>ResultCollection\<close> (a dictionary of named values) or any other
  value; \<open>'v\<close> is the type of the values, \<open>'b\<close> the type of a batch.
\<close>

datatype 'v step_output =
    ResultCollection "(string \<times> 'v) list"
  | Step_output 'v

text \<open>
  Modelled from the spec: \<^verbatim>\<open>PredictionCollection\<close> (\<^verbatim>\<open>trainer/supporters.py\<close> is not
  part of the sources), "a collection keyed by rank/world-size, accumulating per-batch
  prediction tensors". \<open>added\<close> holds the arguments of its \<^verbatim>\<open>add\<close> calls, in order.
\<close>

record 'v prediction_collection =
  pc_global_rank :: int
  pc_world_size :: int
  added :: "'v option list"

definition PredictionCollection_init :: "int \<Rightarrow> int \<Rightarrow> 'v prediction_collection" where
  "PredictionCollection_init rank wsize =
     \<lparr> pc_global_rank = rank, pc_world_size = wsize, added = [] \<rparr>"

text \<open>
  The fields of \<^verbatim>\<open>EvaluationLoop.__init__\<close>. \<open>dataloader_iter\<close> is the iterator object
  that \<^verbatim>\<open>run\<close> receives as its first argument: the pairs it has still to yield.
  \<^verbatim>\<open>next\<close> on it removes the first pair, and raises \<^verbatim>\<open>StopIteration\<close> when none is left.
\<close>

record ('b, 'v) evaluation_loop = loop +
  predictions :: "'v prediction_collection option"
  dataloader :: "unit option"
  dl_max_batches :: "int option"
  dataloader_idx :: "int option"
  num_dataloaders :: "int option"
  outputs :: "'v step_output list"
  dataloader_iter :: "(int \<times> 'b option) list"

text \<open>\<^verbatim>\<open>EvaluationLoop.__init__\<close> followed by \<^verbatim>\<open>connect(trainer)\<close>.\<close>

definition EvaluationLoop_init :: "trainer \<Rightarrow> ('b, 'v) evaluation_loop" where
  "EvaluationLoop_init t =
     \<lparr> iteration_count = 0, trainer = t, calls = [], info_log = [],
       predictions = None, dataloader = None, dl_max_batches = None,
       dataloader_idx = None, num_dataloaders = None, outputs = [], dataloader_iter = [] \<rparr>"

text \<open>The arguments of \<^verbatim>\<open>run\<close> after the iterator.\<close>

record eval_args =
  arg_dataloader_idx :: int
  arg_dl_max_batches :: int
  arg_num_dataloaders :: int

datatype 'b kwarg = Batch_arg 'b | Int_arg int

text \<open>
  The collaborators whose results the evaluation loop uses: the accelerator's two step
  functions, the two step-end hooks (by name), and the trainer's policy for keeping
  outputs.
\<close>

record ('b, 'v) eval_env = env +
  test_step :: "(string \<times> 'b kwarg) list \<Rightarrow> trainer \<Rightarrow> (exn + 'v step_output option) \<times> trainer"
  validation_step :: "(string \<times> 'b kwarg) list \<Rightarrow> trainer \<Rightarrow> (exn + 'v step_output option) \<times> trainer"
  step_end_hook :: "string \<Rightarrow> 'v step_output option \<Rightarrow> trainer \<Rightarrow> (exn + 'v step_output option) \<times> trainer"
  track_output_for_epoch_end ::
    "'v step_output list \<Rightarrow> 'v step_output option \<Rightarrow> trainer \<Rightarrow> (exn + 'v step_output list) \<times> trainer"

text \<open>
  \<^verbatim>\<open>self.iteration_count >= self.dl_max_batches\<close>: comparing an \<^verbatim>\<open>int\<close> with \<^verbatim>\<open>None\<close>
  raises \<^verbatim>\<open>TypeError\<close>.
\<close>

definition EvaluationLoop_done :: "(('b, 'v) evaluation_loop, bool) py" where
  "EvaluationLoop_done s =
     (case dl_max_batches s of
        None \<Rightarrow> py_raise TypeError s
      | Some m \<Rightarrow> py_return (iteration_count s \<ge> m) s)"

definition EvaluationLoop_reset :: "(('b, 'v) evaluation_loop, unit) py" where
  "EvaluationLoop_reset =
     py_modify (\<lambda>s. s\<lparr> iteration_count := 0,
        predictions := Some (PredictionCollection_init (global_rank (trainer s)) (world_size (trainer s))),
        dl_max_batches := None,
        dataloader_idx := None,
        num_dataloaders := None,
        outputs := [] \<rparr>)"

definition EvaluationLoop_on_run_start :: "eval_args \<Rightarrow> (('b, 'v) evaluation_loop, unit) py" where
  "EvaluationLoop_on_run_start args =
     py_modify (\<lambda>s. s\<lparr> dl_max_batches := Some (arg_dl_max_batches args),
        dataloader_idx := Some (arg_dataloader_idx args),
        num_dataloaders := Some (arg_num_dataloaders args) \<rparr>)"

text \<open>
  \<^verbatim>\<open>_build_kwargs\<close> reads the loop and the trainer and changes neither. Both of its
  conjunctions compare \<^verbatim>\<open>self.num_dataloaders > 1\<close> in one of the two modes, so a
  \<^verbatim>\<open>None\<close> there raises \<^verbatim>\<open>TypeError\<close>. The result is the ordered dictionary as a list
  of pairs.
\<close>

definition build_kwargs ::
  "('b, 'v) evaluation_loop \<Rightarrow> 'b \<Rightarrow> int \<Rightarrow> int \<Rightarrow> exn + (string \<times> 'b kwarg) list" where
  "build_kwargs s batch batch_idx dataloader_idx' =
     (let step_kwargs = [(''batch'', Batch_arg batch), (''batch_idx'', Int_arg batch_idx)] in
      case num_dataloaders s of
        None \<Rightarrow> Inl TypeError
      | Some n \<Rightarrow>
          (let multiple_val_loaders = (\<not> testing (trainer s) \<and> n > 1);
               multiple_test_loaders = (testing (trainer s) \<and> n > 1)
           in if multiple_test_loaders \<or> multiple_val_loaders
              then Inr (step_kwargs @ [(''dataloader_idx'', Int_arg dataloader_idx')])
              else Inr step_kwargs))"

definition evaluation_step ::
  "('b, 'v, 'e) eval_env_scheme \<Rightarrow> 'b \<Rightarrow> int \<Rightarrow> int
     \<Rightarrow> (('b, 'v) evaluation_loop, 'v step_output option) py" where
  "evaluation_step E batch batch_idx dataloader_idx' s =
     (case build_kwargs s batch batch_idx dataloader_idx' of
        Inl e \<Rightarrow> py_raise e s
      | Inr step_kwargs \<Rightarrow>
          if testing (trainer s) then
            py_bind (py_modify (\<lambda>s. s\<lparr>trainer := (trainer s)\<lparr>current_fx_name := Some ''test_step''\<rparr>\<rparr>))
              (\<lambda>_. profile E ''test_step''
                      (collab_call Accelerator_test_step (test_step E step_kwargs))) s
          else
            py_bind (py_modify (\<lambda>s. s\<lparr>trainer := (trainer s)\<lparr>current_fx_name := Some ''validation_step''\<rparr>\<rparr>))
              (\<lambda>_. profile E ''validation_step''
                      (collab_call Accelerator_validation_step (validation_step E step_kwargs))) s)"

definition evaluation_step_end ::
  "('b, 'v, 'e) eval_env_scheme \<Rightarrow> 'v step_output option
     \<Rightarrow> (('b, 'v) evaluation_loop, 'v step_output option) py" where
  "evaluation_step_end E output s =
     (if testing (trainer s) then
        collab_call (Call_hook ''test_step_end'') (step_end_hook E ''test_step_end'' output) s
      else
        collab_call (Call_hook ''validation_step_end'') (step_end_hook E ''validation_step_end'' output) s)"

definition on_evaluation_batch_start ::
  "('b, 'v, 'e) eval_env_scheme \<Rightarrow> 'b \<Rightarrow> int \<Rightarrow> int \<Rightarrow> (('b, 'v) evaluation_loop, unit) py" where
  "on_evaluation_batch_start E batch batch_idx dataloader_idx' =
     py_seq [
       call E Logger_connector_on_batch_start,
       (\<lambda>s. case num_dataloaders s of
               None \<Rightarrow> py_raise AssertionError s
             | Some n \<Rightarrow>
                 call E (Logger_connector_on_evaluation_batch_start batch_idx dataloader_idx' n) s),
       (\<lambda>s. if testing (trainer s) then call E (Call_hook ''on_test_batch_start'') s
             else call E (Call_hook ''on_validation_batch_start'') s)]"

text \<open>
  \<^verbatim>\<open>output.pop('predictions', None)\<close> removes the field from the output object, which
  \<^verbatim>\<open>advance\<close> goes on to use: the method returns the output as it leaves it.
\<close>

definition store_predictions ::
  "('b, 'v, 'e) eval_env_scheme \<Rightarrow> 'v step_output option \<Rightarrow> int \<Rightarrow> int
     \<Rightarrow> (('b, 'v) evaluation_loop, 'v step_output option) py" where
  "store_predictions E output batch_idx dataloader_idx' s =
     (let (output', s') =
        (case (output, predictions s) of
           (Some (ResultCollection items), Some pc) \<Rightarrow>
             if testing (trainer s) then
               (Some (ResultCollection (filter (\<lambda>kv. fst kv \<noteq> ''predictions'') items)),
                s\<lparr>predictions := Some (pc\<lparr>added := added pc @ [map_of items ''predictions'']\<rparr>)\<rparr>)
             else (output, s)
         | _ \<Rightarrow> (output, s))
      in py_bind (call E (Track_eval_loss_history batch_idx dataloader_idx'))
           (\<lambda>_. py_return output') s')"

definition on_evaluation_batch_end ::
  "('b, 'v, 'e) eval_env_scheme \<Rightarrow> 'v step_output option \<Rightarrow> 'b \<Rightarrow> int \<Rightarrow> int
     \<Rightarrow> (('b, 'v) evaluation_loop, 'v step_output option) py" where
  "on_evaluation_batch_end E output batch batch_idx dataloader_idx' =
     py_bind (\<lambda>s. if testing (trainer s) then call E (Call_hook ''on_test_batch_end'') s
                   else call E (Call_hook ''on_validation_batch_end'') s)
       (\<lambda>_. py_bind (call E Logger_connector_on_batch_end)
          (\<lambda>_. store_predictions E output batch_idx dataloader_idx'))"

definition EvaluationLoop_advance ::
  "('b, 'v, 'e) eval_env_scheme \<Rightarrow> eval_args \<Rightarrow> (('b, 'v) evaluation_loop, unit) py" where
  "EvaluationLoop_advance E args s =
     (case dataloader_iter s of
        [] \<Rightarrow> py_raise StopIteration s
      | (batch_idx, batch_opt) # rest \<Rightarrow>
          (case batch_opt of
             None \<Rightarrow> py_raise StopIteration (s\<lparr>dataloader_iter := rest\<rparr>)
           | Some batch \<Rightarrow>
               py_bind (on_evaluation_batch_start E batch batch_idx (arg_dataloader_idx args))
                 (\<lambda>_. py_bind
                    (profile E ''evaluation_step_and_end''
                       (py_bind (evaluation_step E batch batch_idx (arg_dataloader_idx args))
                          (\<lambda>output. evaluation_step_end E output)))
                    (\<lambda>output. py_bind
                       (on_evaluation_batch_end E output batch batch_idx (arg_dataloader_idx args))
                       (\<lambda>output. py_bind (call E Logger_connector_update_eval_step_metrics)
                          (\<lambda>_. py_bind
                             (\<lambda>s. collab_call Track_output_for_epoch_end
                                     (track_output_for_epoch_end E (outputs s) output) s)
                             (\<lambda>outputs'. py_modify (\<lambda>s. s\<lparr>outputs := outputs'\<rparr>))))))
                 (s\<lparr>dataloader_iter := rest\<rparr>)))"

definition EvaluationLoop_on_run_end ::
  "(('b, 'v) evaluation_loop, 'v step_output list) py" where
  "EvaluationLoop_on_run_end s = py_return (outputs s) s"

definition EvaluationLoop_methods ::
  "('b, 'v, 'e) eval_env_scheme
     \<Rightarrow> (('b, 'v) evaluation_loop, eval_args, 'v step_output list) loop_methods" where
  "EvaluationLoop_methods E =
     \<lparr> m_done = EvaluationLoop_done,
       m_reset = EvaluationLoop_reset,
       m_on_run_start = EvaluationLoop_on_run_start,
       m_on_advance_start = Loop_on_advance_start,
       m_advance = EvaluationLoop_advance E,
       m_on_advance_end = Loop_on_advance_end,
       m_on_run_end = EvaluationLoop_on_run_end \<rparr>"

text \<open>
  \<^verbatim>\<open>EvaluationLoop.run(dataloader_iter, dataloader_idx, dl_max_batches, num_dataloaders)\<close>:
  the inherited \<^verbatim>\<open>Loop.run\<close>, on a state whose \<open>dataloader_iter\<close> is the iterator given.
\<close>

definition EvaluationLoop_run ::
  "('b, 'v, 'e) eval_env_scheme \<Rightarrow> (int \<times> 'b option) list \<Rightarrow> eval_args \<Rightarrow> ('b, 'v) evaluation_loop
     \<Rightarrow> ((exn + 'v step_output list) \<times> ('b, 'v) evaluation_loop) option" where
  "EvaluationLoop_run E it args s =
     Loop_run (EvaluationLoop_methods E) args (s\<lparr>dataloader_iter := it\<rparr>)"

section \<open>Concrete instances\<close>

text \<open>A trainer with one verbose checkpoint callback, a logger and four training batches.\<close>

definition trainer0 :: trainer where
  "trainer0 =
     \<lparr> should_stop = False, num_training_batches = 4, num_val_batches = [2],
       reload_dataloaders_every_epoch = False, disable_validation = False,
       accumulate_grad_batches = 1, has_trained = True,
       checkpoint_callbacks = [\<lparr>save_last = True, verbose = True\<rparr>],
       logger = Some ''tensorboard'', running_stage = Some ''fit'', testing = False,
       global_rank = 0, world_size = 1, current_fx_name = None \<rparr>"

text \<open>The state in which a collaborator has set \<^verbatim>\<open>trainer.should_stop = True\<close>.\<close>

definition stop_requested :: "fit_loop \<Rightarrow> fit_loop" where
  "stop_requested s = s\<lparr>trainer := (trainer s)\<lparr>should_stop := True\<rparr>\<rparr>"

text \<open>
  Collaborators that return at once and leave the trainer alone; every training epoch
  takes four optimizer steps and returns a result.
\<close>

definition fit_env0 :: fit_env where
  "fit_env0 =
     \<lparr> collab = (\<lambda>c t. (Inr (), t)),
       training_loop_run = (\<lambda>tl t.
          (Inr (Some [1]), tl\<lparr>global_step := global_step tl + 4, batches_seen := 4\<rparr>, t)),
       should_skip_evaluation = (\<lambda>n. sum_list n = 0) \<rparr>"

text \<open>
  Collaborators of an evaluation: the validation step returns its batch as the output,
  the step-end hook returns the output it is given, and every output is kept.
\<close>

definition eval_env0 :: "(nat, nat) eval_env" where
  "eval_env0 =
     \<lparr> collab = (\<lambda>c t. (Inr (), t)),
       test_step = (\<lambda>kw t. (Inr None, t)),
       validation_step = (\<lambda>kw t.
          (case map_of kw ''batch'' of
             Some (Batch_arg b) \<Rightarrow> (Inr (Some (Step_output b)), t)
           | _ \<Rightarrow> (Inl TypeError, t))),
       step_end_hook = (\<lambda>name output t. (Inr output, t)),
       track_output_for_epoch_end = (\<lambda>outs output t.
          (Inr (case output of None \<Rightarrow> outs | Some out \<Rightarrow> outs @ [out]), t)) \<rparr>"

definition eval_args0 :: eval_args where
  "eval_args0 = \<lparr> arg_dataloader_idx = 0, arg_dl_max_batches = 10, arg_num_dataloaders = 1 \<rparr>"

section \<open>Notions used in the proofs\<close>

text \<open>The state after \<open>n\<close> calls of \<^verbatim>\<open>on_run_end\<close>, whatever each call returned or raised.\<close>

definition on_run_end_calls :: "'e fit_env_scheme \<Rightarrow> nat \<Rightarrow> fit_loop \<Rightarrow> fit_loop" where
  "on_run_end_calls E n = (\<lambda>s. snd (FitLoop_on_run_end E s)) ^^ n"

text \<open>
  The statements of \<^verbatim>\<open>FitLoop.on_run_end\<close> from the checkpoint check on: what runs
  after the flag is set and the two counters are decremented.
\<close>

definition teardown_rest :: "'e fit_env_scheme \<Rightarrow> (fit_loop, unit) py" where
  "teardown_rest E =
     py_seq [
        check_checkpoint_callback E True True,
        py_modify (\<lambda>s. s\<lparr>training_loop :=
             (training_loop s)\<lparr>global_step := global_step (training_loop s) + 1\<rparr>\<rparr>),
        call E (Call_hook ''on_train_end''),
        (\<lambda>s. if logger (trainer s) \<noteq> None then call E (Logger_finalize ''success'') s
              else py_return () s),
        call E Profiler_describe,
        call E Accelerator_on_train_end,
        py_modify (\<lambda>s. s\<lparr>trainer := (trainer s)\<lparr>running_stage := None\<rparr>\<rparr>)]"

text \<open>\<open>preserves g m\<close>: the statement \<open>m\<close> leaves the observation \<open>g\<close> of the state as it was.\<close>

definition preserves :: "('s \<Rightarrow> 'x) \<Rightarrow> ('s, 'a) py \<Rightarrow> bool" where
  "preserves g m \<longleftrightarrow> (\<forall>s. g (snd (m s)) = g s)"

text \<open>\<open>adds_at_most c k m\<close>: the statement \<open>m\<close> makes the call \<open>c\<close> at most \<open>k\<close> times.\<close>

definition adds_at_most :: "call \<Rightarrow> nat \<Rightarrow> ('z loop_scheme, 'a) py \<Rightarrow> bool" where
  "adds_at_most c k m \<longleftrightarrow> (\<forall>s. count_list (calls (snd (m s))) c \<le> count_list (calls s) c + k)"

text \<open>
  \<open>returns P m Q\<close>: from a state in \<open>P\<close> the statement \<open>m\<close> returns normally, in a state
  in \<open>Q\<close>.
\<close>

definition returns :: "('s \<Rightarrow> bool) \<Rightarrow> ('s, 'a) py \<Rightarrow> ('s \<Rightarrow> bool) \<Rightarrow> bool" where
  "returns P m Q \<longleftrightarrow> (\<forall>s. P s \<longrightarrow> (\<exists>a s'. m s = (Inr a, s') \<and> Q s'))"

text \<open>
  The collaborators of a run in which nothing intervenes: every call returns, the child
  loop returns from every epoch, and neither sets \<^verbatim>\<open>should_stop\<close> or a step bound.
\<close>

definition quiet :: "'e fit_env_scheme \<Rightarrow> bool" where
  "quiet E \<longleftrightarrow>
     (\<forall>c t. fst (collab E c t) = Inr () \<and> (\<not> should_stop t \<longrightarrow> \<not> should_stop (snd (collab E c t))))
     \<and> (\<forall>tl t. \<exists>out tl' t'. training_loop_run E tl t = (Inr out, tl', t')
            \<and> (max_steps tl = None \<longrightarrow> max_steps tl' = None)
            \<and> (\<not> should_stop t \<longrightarrow> \<not> should_stop t'))"

text \<open>
  The invariant of such a run of \<^verbatim>\<open>FitLoop(min_epochs=1, max_epochs=3)\<close>: \<open>k\<close> epochs are
  counted and the child loop has run \<open>n\<close> times.
\<close>

definition epochs_inv :: "nat \<Rightarrow> nat \<Rightarrow> fit_loop \<Rightarrow> bool" where
  "epochs_inv k n s \<longleftrightarrow>
     iteration_count s = int k \<and> count_list (calls s) Training_loop_run = n
     \<and> \<not> should_stop (trainer s) \<and> max_steps (training_loop s) = None
     \<and> max_epochs s = Some 3 \<and> \<not> teardown_already_run s"

text \<open>The state such a run ends in.\<close>

definition torn_down :: "fit_loop \<Rightarrow> bool" where
  "torn_down s \<longleftrightarrow>
     iteration_count s = 2 \<and> count_list (calls s) Training_loop_run = 3 \<and> teardown_already_run s"

section \<open>Proof tools\<close>

declare py_seq.simps [simp del]

lemmas fit_simps = FitLoop_done_def FitLoop_init_def met_min_epochs_def met_min_steps_def
  stop_steps_def stop_epochs_def TrainingEpochLoop_init_def FitLoop_min_steps_def
  FitLoop_max_steps_def current_epoch_def FitLoop_global_step_def trainer0_def stop_requested_def
  set_global_step_def set_current_epoch_def

lemmas run_simps = FitLoop_on_run_end_def check_checkpoint_callback_def call_def collab_call_def
  py_seq.simps py_bind_def py_modify_def py_return_def py_raise_def fit_env0_def

lemmas eval_simps = EvaluationLoop_methods_def EvaluationLoop_reset_def EvaluationLoop_on_run_start_def
  EvaluationLoop_done_def EvaluationLoop_advance_def EvaluationLoop_on_run_end_def
  EvaluationLoop_init_def EvaluationLoop_run_def
  Loop_on_advance_start_def Loop_on_advance_end_def on_evaluation_batch_start_def
  on_evaluation_batch_end_def evaluation_step_def evaluation_step_end_def store_predictions_def
  build_kwargs_def profile_def py_finally_def call_def collab_call_def
  py_seq.simps py_bind_def py_modify_def py_return_def py_raise_def
  eval_env0_def eval_args0_def trainer0_def PredictionCollection_init_def


subsection \<open>Sequences of statements\<close>

lemma py_seq_modify_Cons: "py_seq (py_modify f # ms) s = py_seq ms (f s)"
  by (simp add: py_seq.simps py_bind_def py_modify_def)

subsection \<open>What a statement leaves unchanged\<close>

lemma preserves_return: "preserves g (py_return a)"
  by (simp add: preserves_def py_return_def)

lemma preserves_bind:
  "preserves g m \<Longrightarrow> (\<And>a. preserves g (f a)) \<Longrightarrow> preserves g (py_bind m f)"
  unfolding preserves_def py_bind_def
  by (auto split: prod.splits sum.splits) (metis snd_conv)+

lemma preserves_seq: "(\<And>m. m \<in> set ms \<Longrightarrow> preserves g m) \<Longrightarrow> preserves g (py_seq ms)"
  by (induction ms) (auto simp: py_seq.simps intro!: preserves_bind preserves_return)

lemma preserves_modify: "(\<And>s. g (f s) = g s) \<Longrightarrow> preserves g (py_modify f)"
  by (simp add: preserves_def py_modify_def)

lemma preserves_call:
  "(\<And>s t cs. g (s\<lparr>trainer := t, calls := cs\<rparr>) = g s) \<Longrightarrow> preserves g (call E c)"
  by (auto simp: preserves_def call_def collab_call_def split: prod.splits)

lemma preserves_cond:
  "preserves g m \<Longrightarrow> preserves g n \<Longrightarrow> preserves g (\<lambda>s. if b s then m s else n s)"
  by (simp add: preserves_def)

lemma preserves_check_checkpoint_callback:
  assumes "\<And>s t cs. g (s\<lparr>trainer := t, calls := cs\<rparr>) = g s"
    and "\<And>s l. g (s\<lparr>info_log := l\<rparr>) = g s"
  shows "preserves g (check_checkpoint_callback E su il)"
  unfolding preserves_def
proof
  fix s :: fit_loop
  show "g (snd (check_checkpoint_callback E su il s)) = g s"
  proof (cases "su \<and> has_trained (trainer s)")
    case False
    then show ?thesis by (auto simp: check_checkpoint_callback_def py_return_def)
  next
    case True
    let ?cbs = "checkpoint_callbacks (trainer s)"
    let ?ms = "(\<lambda>s. if il \<and> list_ex (\<lambda>cb. save_last cb \<and> verbose cb) ?cbs
                 then py_modify (\<lambda>s. s\<lparr>info_log := info_log s @ [Saving_latest_checkpoint]\<rparr>) s
                 else py_return () s)
           # map (\<lambda>i s. call E (Checkpoint_on_validation_end i (FitLoop_global_step s)) s)
                 [0 ..< length ?cbs]"
    have "preserves g (py_seq ?ms)"
    proof (rule preserves_seq)
      fix m assume "m \<in> set ?ms"
      then consider "m = (\<lambda>s. if il \<and> list_ex (\<lambda>cb. save_last cb \<and> verbose cb) ?cbs
                 then py_modify (\<lambda>s. s\<lparr>info_log := info_log s @ [Saving_latest_checkpoint]\<rparr>) s
                 else py_return () s)"
        | i where "m = (\<lambda>s. call E (Checkpoint_on_validation_end i (FitLoop_global_step s)) s)"
        by auto
      then show "preserves g m"
      proof cases
        case 1
        then show ?thesis using assms(2) by (simp add: preserves_def py_modify_def py_return_def)
      next
        case 2
        then show ?thesis using assms(1)
          by (auto simp: preserves_def call_def collab_call_def split: prod.splits)
      qed
    qed
    then show ?thesis using True
      by (simp add: check_checkpoint_callback_def preserves_def Let_def)
  qed
qed

lemma preserves_teardown_rest:
  assumes "\<And>s t cs. g (s\<lparr>trainer := t, calls := cs\<rparr>) = g s"
    and "\<And>s l. g (s\<lparr>info_log := l\<rparr>) = g s"
    and "\<And>s x. g (s\<lparr>training_loop := x\<rparr>) = g s"
    and "\<And>s x. g (s\<lparr>trainer := x\<rparr>) = g s"
  shows "preserves g (teardown_rest E)"
  unfolding teardown_rest_def using assms
  by (auto intro!: preserves_seq preserves_modify preserves_call preserves_cond preserves_return
        preserves_check_checkpoint_callback)

subsection \<open>How often a statement makes a call\<close>

lemma adds_return: "adds_at_most c 0 (py_return a)"
  by (simp add: adds_at_most_def py_return_def)

lemma adds_modify: "(\<And>s. calls (f s) = calls s) \<Longrightarrow> adds_at_most c 0 (py_modify f)"
  by (simp add: adds_at_most_def py_modify_def)

lemma adds_call_other: "c' \<noteq> c \<Longrightarrow> adds_at_most c 0 (call E c')"
  by (auto simp: adds_at_most_def call_def collab_call_def split: prod.splits)

lemma adds_call_same: "adds_at_most c (Suc 0) (call E c)"
  by (auto simp: adds_at_most_def call_def collab_call_def split: prod.splits)

lemma adds_bind:
  assumes "adds_at_most c j m" and "\<And>a. adds_at_most c k (f a)"
  shows "adds_at_most c (j + k) (py_bind m f)"
  unfolding adds_at_most_def
proof
  fix s
  obtain r s' where ms: "m s = (r, s')" by (cases "m s")
  from assms(1) ms have 1: "count_list (calls s') c \<le> count_list (calls s) c + j"
    by (auto simp: adds_at_most_def dest: spec [of _ s])
  show "count_list (calls (snd (py_bind m f s))) c \<le> count_list (calls s) c + (j + k)"
  proof (cases r)
    case (Inl e)
    with ms 1 show ?thesis by (simp add: py_bind_def)
  next
    case (Inr a)
    from assms(2) [of a] have "count_list (calls (snd (f a s'))) c \<le> count_list (calls s') c + k"
      by (simp add: adds_at_most_def)
    with Inr ms 1 show ?thesis by (simp add: py_bind_def)
  qed
qed

lemma adds_seq:
  "list_all2 (adds_at_most c) ks ms \<Longrightarrow> adds_at_most c (sum_list ks) (py_seq ms)"
proof (induction ks ms rule: list_all2_induct)
  case Nil
  show ?case by (simp add: py_seq.simps adds_return)
next
  case (Cons k ks m ms)
  then show ?case by (simp add: py_seq.simps adds_bind)
qed

lemma adds_seq_zero:
  "(\<And>m. m \<in> set ms \<Longrightarrow> adds_at_most c 0 m) \<Longrightarrow> adds_at_most c 0 (py_seq ms)"
proof (induction ms)
  case Nil
  show ?case by (simp add: py_seq.simps adds_return)
next
  case (Cons m ms)
  have "adds_at_most c (0 + 0) (py_bind m (\<lambda>_. py_seq ms))"
    by (rule adds_bind) (simp_all add: Cons)
  then show ?case by (simp add: py_seq.simps)
qed

lemma adds_cond:
  "adds_at_most c k m \<Longrightarrow> adds_at_most c k n \<Longrightarrow> adds_at_most c k (\<lambda>s. if b s then m s else n s)"
  by (simp add: adds_at_most_def)

lemma adds_mono:
  assumes "adds_at_most c j m" and "j \<le> k"
  shows "adds_at_most c k m"
  unfolding adds_at_most_def
proof
  fix s
  from assms(1) have "count_list (calls (snd (m s))) c \<le> count_list (calls s) c + j"
    by (simp add: adds_at_most_def)
  with assms(2) show "count_list (calls (snd (m s))) c \<le> count_list (calls s) c + k"
    by simp
qed

lemma adds_check_checkpoint_callback:
  assumes "\<And>i g. c \<noteq> Checkpoint_on_validation_end i g"
  shows "adds_at_most c 0 (check_checkpoint_callback E su il)"
  unfolding adds_at_most_def
proof
  fix s :: fit_loop
  show "count_list (calls (snd (check_checkpoint_callback E su il s))) c \<le> count_list (calls s) c + 0"
  proof (cases "su \<and> has_trained (trainer s)")
    case False
    then show ?thesis by (auto simp: check_checkpoint_callback_def py_return_def)
  next
    case True
    let ?cbs = "checkpoint_callbacks (trainer s)"
    let ?ms = "(\<lambda>s. if il \<and> list_ex (\<lambda>cb. save_last cb \<and> verbose cb) ?cbs
                 then py_modify (\<lambda>s. s\<lparr>info_log := info_log s @ [Saving_latest_checkpoint]\<rparr>) s
                 else py_return () s)
           # map (\<lambda>i s. call E (Checkpoint_on_validation_end i (FitLoop_global_step s)) s)
                 [0 ..< length ?cbs]"
    have "adds_at_most c 0 (py_seq ?ms)"
    proof (rule adds_seq_zero)
      fix m assume "m \<in> set ?ms"
      then consider "m = (\<lambda>s. if il \<and> list_ex (\<lambda>cb. save_last cb \<and> verbose cb) ?cbs
                 then py_modify (\<lambda>s. s\<lparr>info_log := info_log s @ [Saving_latest_checkpoint]\<rparr>) s
                 else py_return () s)"
        | i where "m = (\<lambda>s. call E (Checkpoint_on_validation_end i (FitLoop_global_step s)) s)"
        by auto
      then show "adds_at_most c 0 m"
      proof cases
        case 1
        then show ?thesis by (simp add: adds_at_most_def py_modify_def py_return_def)
      next
        case 2
        then show ?thesis using assms
          by (auto simp: adds_at_most_def call_def collab_call_def split: prod.splits)
      qed
    qed
    then show ?thesis using True
      by (simp add: check_checkpoint_callback_def adds_at_most_def Let_def)
  qed
qed

subsection \<open>Statements that return\<close>

lemma returnsD: "returns P m Q \<Longrightarrow> P s \<Longrightarrow> \<exists>a s'. m s = (Inr a, s') \<and> Q s'"
  by (simp add: returns_def)

lemma returns_return: "(\<And>s. P s \<Longrightarrow> Q s) \<Longrightarrow> returns P (py_return a) Q"
  by (simp add: returns_def py_return_def)

lemma returns_modify: "(\<And>s. P s \<Longrightarrow> Q (f s)) \<Longrightarrow> returns P (py_modify f) Q"
  by (simp add: returns_def py_modify_def)

lemma returns_bind:
  assumes "returns P m Q" and "\<And>a. returns Q (f a) R"
  shows "returns P (py_bind m f) R"
  unfolding returns_def
proof (intro allI impI)
  fix s assume "P s"
  with assms(1) obtain a s' where 1: "m s = (Inr a, s')" "Q s'"
    by (auto dest: returnsD)
  from assms(2) [of a] 1(2) obtain b s'' where "f a s' = (Inr b, s'')" "R s''"
    by (auto dest: returnsD)
  with 1 show "\<exists>b s''. py_bind m f s = (Inr b, s'') \<and> R s''"
    by (simp add: py_bind_def)
qed

lemma returns_seq_Nil: "(\<And>s. P s \<Longrightarrow> Q s) \<Longrightarrow> returns P (py_seq []) Q"
  by (simp add: py_seq.simps returns_return)

lemma returns_seq_Cons:
  "returns P m Q \<Longrightarrow> returns Q (py_seq ms) R \<Longrightarrow> returns P (py_seq (m # ms)) R"
  by (simp add: py_seq.simps returns_bind)

lemma returns_seq_same:
  "(\<And>m. m \<in> set ms \<Longrightarrow> returns P m P) \<Longrightarrow> returns P (py_seq ms) P"
  by (induction ms) (auto intro: returns_seq_Nil returns_seq_Cons)

lemma returns_cond:
  "returns P m Q \<Longrightarrow> returns P n Q \<Longrightarrow> returns P (\<lambda>s. if b s then m s else n s) Q"
  by (simp add: returns_def)

lemma returns_if:
  "returns P m Q \<Longrightarrow> returns P n Q \<Longrightarrow> returns P (if b then m else n) Q"
  by simp

lemma returns_suppress: "returns P m Q \<Longrightarrow> returns P (suppress_Exception m) Q"
  by (fastforce simp: returns_def suppress_Exception_def)

lemma returns_finally:
  assumes "returns P m Q" and "returns Q f R"
  shows "returns P (py_finally m f) R"
  unfolding returns_def
proof (intro allI impI)
  fix s assume "P s"
  with assms(1) obtain a s' where 1: "m s = (Inr a, s')" "Q s'"
    by (auto dest: returnsD)
  from assms(2) 1(2) obtain b s'' where "f s' = (Inr b, s'')" "R s''"
    by (auto dest: returnsD)
  with 1 show "\<exists>b s''. py_finally m f s = (Inr b, s'') \<and> R s''"
    by (simp add: py_finally_def)
qed

lemma returns_call:
  fixes P :: "'z loop_scheme \<Rightarrow> bool"
  assumes "\<And>c t. fst (collab E c t) = Inr ()"
    and "\<And>s t. P s \<Longrightarrow> t = snd (collab E c (trainer s)) \<Longrightarrow> P (s\<lparr>trainer := t, calls := calls s @ [c]\<rparr>)"
  shows "returns P (call E c) P"
  unfolding returns_def call_def collab_call_def
proof (intro allI impI)
  fix s assume "P s"
  obtain r t where ct: "collab E c (trainer s) = (r, t)" by (cases "collab E c (trainer s)")
  with assms(1) [of c "trainer s"] have "r = Inr ()" by simp
  moreover from assms(2) [OF \<open>P s\<close>, of t] ct have "P (s\<lparr>trainer := t, calls := calls s @ [c]\<rparr>)" by simp
  ultimately show "\<exists>a s'. (case collab E c (trainer s) of (r, t') \<Rightarrow> (r, s\<lparr>trainer := t', calls := calls s @ [c]\<rparr>)) = (Inr a, s') \<and> P s'"
    using ct by simp
qed

lemma returns_profile:
  assumes "returns P (call E (Profiler_start name)) P" and "returns P body Q"
    and "returns Q (call E (Profiler_stop name)) Q"
  shows "returns P (profile E name body) Q"
  unfolding profile_def using assms
  by (auto intro!: returns_bind returns_finally)

lemma returns_check_checkpoint_callback:
  fixes P :: "fit_loop \<Rightarrow> bool"
  assumes hooks: "\<And>c t. fst (collab E c t) = Inr ()"
    and log: "\<And>s l. P s \<Longrightarrow> P (s\<lparr>info_log := l\<rparr>)"
    and cb: "\<And>s i g. P s \<Longrightarrow>
      P (s\<lparr>trainer := snd (collab E (Checkpoint_on_validation_end i g) (trainer s)),
            calls := calls s @ [Checkpoint_on_validation_end i g]\<rparr>)"
  shows "returns P (check_checkpoint_callback E su il) P"
  unfolding returns_def
proof (intro allI impI)
  fix s assume inv: "P s"
  show "\<exists>a s'. check_checkpoint_callback E su il s = (Inr a, s') \<and> P s'"
  proof (cases "su \<and> has_trained (trainer s)")
    case False
    with inv show ?thesis by (auto simp: check_checkpoint_callback_def py_return_def)
  next
    case True
    let ?cbs = "checkpoint_callbacks (trainer s)"
    let ?ms = "(\<lambda>s. if il \<and> list_ex (\<lambda>cb. save_last cb \<and> verbose cb) ?cbs
                 then py_modify (\<lambda>s. s\<lparr>info_log := info_log s @ [Saving_latest_checkpoint]\<rparr>) s
                 else py_return () s)
           # map (\<lambda>i s. call E (Checkpoint_on_validation_end i (FitLoop_global_step s)) s)
                 [0 ..< length ?cbs]"
    have "returns P (py_seq ?ms) P"
    proof (rule returns_seq_same)
      fix m assume "m \<in> set ?ms"
      then consider "m = (\<lambda>s. if il \<and> list_ex (\<lambda>cb. save_last cb \<and> verbose cb) ?cbs
                 then py_modify (\<lambda>s. s\<lparr>info_log := info_log s @ [Saving_latest_checkpoint]\<rparr>) s
                 else py_return () s)"
        | i where "m = (\<lambda>s. call E (Checkpoint_on_validation_end i (FitLoop_global_step s)) s)"
        by auto
      then show "returns P m P"
      proof cases
        case 1
        then show ?thesis using log by (simp add: returns_def py_modify_def py_return_def)
      next
        case 2
        have "returns P (call E (Checkpoint_on_validation_end i g)) P" for g
          using hooks cb by (intro returns_call) auto
        with 2 show ?thesis by (simp add: returns_def)
      qed
    qed
    from returnsD [OF this inv] True show ?thesis
      by (simp add: check_checkpoint_callback_def Let_def)
  qed
qed

section \<open>Construction of a FitLoop\<close>

text \<open>
  C4. \<^verbatim>\<open>FitLoop.__init__\<close> replaces \<open>max_epochs\<close> by 1000 exactly when both \<open>max_epochs\<close>
  and \<open>max_steps\<close> are \<^verbatim>\<open>None\<close>, and \<open>min_epochs\<close> by 1 exactly when both \<open>min_epochs\<close> and
  \<open>min_steps\<close> are \<^verbatim>\<open>None\<close>; otherwise the loop keeps the value it was given, \<^verbatim>\<open>None\<close>
  included. The last two conjuncts say that the stored value differs from the given one
  if and only if the default applied.
\<close>

theorem FitLoop_init_defaulting:
  "max_epochs (FitLoop_init t mne mxe mns mxs) = (if mxe = None \<and> mxs = None then Some 1000 else mxe)
   \<and> min_epochs (FitLoop_init t mne mxe mns mxs) = (if mne = None \<and> mns = None then Some 1 else mne)
   \<and> (max_epochs (FitLoop_init t mne mxe mns mxs) \<noteq> mxe \<longleftrightarrow> mxe = None \<and> mxs = None)
   \<and> (min_epochs (FitLoop_init t mne mxe mns mxs) \<noteq> mne \<longleftrightarrow> mne = None \<and> mns = None)"
  by (simp add: FitLoop_init_def)

theorem FitLoop_init_defaulting_witness:
  "max_epochs (FitLoop_init trainer0 None None None None) = Some 1000
   \<and> min_epochs (FitLoop_init trainer0 None None None None) = Some 1
   \<and> max_epochs (FitLoop_init trainer0 None None None (Some 50)) = None
   \<and> min_epochs (FitLoop_init trainer0 None (Some 7) (Some 20) None) = None
   \<and> max_epochs (FitLoop_init trainer0 (Some 2) (Some 7) None None) = Some 7
   \<and> min_epochs (FitLoop_init trainer0 (Some 2) (Some 7) None None) = Some 2"
  using FitLoop_init_defaulting [of trainer0 None None None None]
    FitLoop_init_defaulting [of trainer0 None None None "Some 50"]
    FitLoop_init_defaulting [of trainer0 None "Some 7" "Some 20" None]
    FitLoop_init_defaulting [of trainer0 "Some 2" "Some 7" None None]
  by simp

section \<open>FitLoop.done\<close>

text \<open>
  C1 (amended). With \<^verbatim>\<open>trainer.should_stop\<close> set: if both minimum conditions of the code
  hold, \<^verbatim>\<open>done\<close> returns \<^verbatim>\<open>True\<close> and changes nothing. If one of them fails, \<^verbatim>\<open>done\<close>
  resets \<^verbatim>\<open>trainer.should_stop\<close> to \<^verbatim>\<open>False\<close> and returns whether a maximum is reached
  (\<open>global_step \<ge> max_steps\<close> or \<open>current_epoch \<ge> max_epochs\<close>, for a bound that is set):
  \<^verbatim>\<open>False\<close> when none is. The last two conjuncts spell the minimum conditions out: a
  bound counts when it is set and not zero.
\<close>

theorem FitLoop_done_gating:
  assumes "should_stop (trainer s)"
  shows "(met_min_epochs s \<and> met_min_steps s \<longrightarrow> fst (FitLoop_done s) = True \<and> snd (FitLoop_done s) = s)
    \<and> (\<not> (met_min_epochs s \<and> met_min_steps s) \<longrightarrow>
          \<not> should_stop (trainer (snd (FitLoop_done s)))
          \<and> fst (FitLoop_done s) = (stop_steps s \<or> stop_epochs s))
    \<and> (met_min_epochs s \<longleftrightarrow>
          (case min_epochs s of None \<Rightarrow> True | Some m \<Rightarrow> m = 0 \<or> m \<le> current_epoch s))
    \<and> (met_min_steps s \<longleftrightarrow>
          (case FitLoop_min_steps s of None \<Rightarrow> True | Some m \<Rightarrow> m = 0 \<or> m \<le> FitLoop_global_step s))"
  using assms
  by (auto simp: FitLoop_done_def met_min_epochs_def met_min_steps_def split: option.splits)

theorem FitLoop_done_gating_witness:
  "fst (FitLoop_done (stop_requested (FitLoop_init trainer0 (Some 5) None None None))) = False
   \<and> \<not> should_stop (trainer (snd (FitLoop_done (stop_requested (FitLoop_init trainer0 (Some 5) None None None)))))
   \<and> fst (FitLoop_done (set_current_epoch 5 (stop_requested (FitLoop_init trainer0 (Some 5) None None None)))) = True
   \<and> should_stop (trainer (snd (FitLoop_done (set_current_epoch 5 (stop_requested (FitLoop_init trainer0 (Some 5) None None None))))))"
  using FitLoop_done_gating [of "stop_requested (FitLoop_init trainer0 (Some 5) None None None)"]
    FitLoop_done_gating [of "set_current_epoch 5 (stop_requested (FitLoop_init trainer0 (Some 5) None None None))"]
  by (simp add: fit_simps)

text \<open>
  The claim as written fails where a maximum is reached: a loop made with
  \<^verbatim>\<open>FitLoop(min_epochs=5, max_steps=10)\<close> that has taken its 10 steps in the first epoch
  (\<open>current_epoch = 1\<close>, \<open>global_step = 10\<close>) has not met its minimum; \<^verbatim>\<open>done\<close> clears the
  stop request and returns \<^verbatim>\<open>True\<close>.
\<close>

theorem FitLoop_done_gating_counterexample:
  "should_stop (trainer (set_current_epoch 1 (set_global_step 10
      (stop_requested (FitLoop_init trainer0 (Some 5) None None (Some 10))))))
   \<and> min_epochs (set_current_epoch 1 (set_global_step 10
      (stop_requested (FitLoop_init trainer0 (Some 5) None None (Some 10))))) = Some 5
   \<and> current_epoch (set_current_epoch 1 (set_global_step 10
      (stop_requested (FitLoop_init trainer0 (Some 5) None None (Some 10))))) < 5
   \<and> fst (FitLoop_done (set_current_epoch 1 (set_global_step 10
      (stop_requested (FitLoop_init trainer0 (Some 5) None None (Some 10)))))) = True
   \<and> \<not> should_stop (trainer (snd (FitLoop_done (set_current_epoch 1 (set_global_step 10
      (stop_requested (FitLoop_init trainer0 (Some 5) None None (Some 10))))))))"
  by (simp add: fit_simps)

text \<open>
  The minimum conditions read the bounds by their truth value. A loop made with
  \<^verbatim>\<open>FitLoop(min_epochs=0)\<close> whose \<open>current_epoch\<close> is \<open>-1\<close> (as \<^verbatim>\<open>on_run_end\<close> leaves it
  when no epoch was counted) is below its bound, and \<^verbatim>\<open>done\<close> honours the stop request.
\<close>

lemma FitLoop_done_zero_bound_below:
  "current_epoch (set_current_epoch (- 1) (stop_requested (FitLoop_init trainer0 (Some 0) None None None))) < 0
   \<and> fst (FitLoop_done (set_current_epoch (- 1) (stop_requested (FitLoop_init trainer0 (Some 0) None None None)))) = True
   \<and> should_stop (trainer (snd (FitLoop_done (set_current_epoch (- 1)
         (stop_requested (FitLoop_init trainer0 (Some 0) None None None))))))"
  by (simp add: fit_simps)

text \<open>
  C10 (amended). A minimum of 0 behaves as an unset one: the condition it guards holds
  whatever the counter, \<^verbatim>\<open>done\<close> returns the same value and leaves \<^verbatim>\<open>should_stop\<close> the
  same as with \<^verbatim>\<open>None\<close> in its place, and a stop request is honoured at once when the
  other minimum is met. A stop request is deferred exactly when a bound that is set and
  not zero lies above its counter: \<open>min_epochs\<close> above \<open>current_epoch\<close>, or \<open>min_steps\<close>
  above \<open>global_step\<close>.
\<close>

theorem zero_bound_is_unset:
  "(min_epochs s = Some 0 \<longrightarrow> met_min_epochs s)
   \<and> (FitLoop_min_steps s = Some 0 \<longrightarrow> met_min_steps s)
   \<and> fst (FitLoop_done (s\<lparr>min_epochs := Some 0\<rparr>)) = fst (FitLoop_done (s\<lparr>min_epochs := None\<rparr>))
   \<and> should_stop (trainer (snd (FitLoop_done (s\<lparr>min_epochs := Some 0\<rparr>))))
       = should_stop (trainer (snd (FitLoop_done (s\<lparr>min_epochs := None\<rparr>))))
   \<and> fst (FitLoop_done (s\<lparr>training_loop := (training_loop s)\<lparr>min_steps := Some 0\<rparr>\<rparr>))
       = fst (FitLoop_done (s\<lparr>training_loop := (training_loop s)\<lparr>min_steps := None\<rparr>\<rparr>))
   \<and> should_stop (trainer (snd (FitLoop_done (s\<lparr>training_loop := (training_loop s)\<lparr>min_steps := Some 0\<rparr>\<rparr>))))
       = should_stop (trainer (snd (FitLoop_done (s\<lparr>training_loop := (training_loop s)\<lparr>min_steps := None\<rparr>\<rparr>))))
   \<and> (should_stop (trainer s) \<and> min_epochs s = Some 0 \<and> met_min_steps s
        \<longrightarrow> fst (FitLoop_done s) = True \<and> snd (FitLoop_done s) = s)
   \<and> (should_stop (trainer s) \<and> met_min_epochs s \<and> FitLoop_min_steps s = Some 0
        \<longrightarrow> fst (FitLoop_done s) = True \<and> snd (FitLoop_done s) = s)
   \<and> (should_stop (trainer s) \<longrightarrow>
        (\<not> should_stop (trainer (snd (FitLoop_done s))) \<longleftrightarrow>
           (\<exists>m. m \<noteq> 0 \<and> min_epochs s = Some m \<and> current_epoch s < m)
           \<or> (\<exists>m. m \<noteq> 0 \<and> FitLoop_min_steps s = Some m \<and> FitLoop_global_step s < m)))"
proof -
  have a: "(min_epochs s = Some 0 \<longrightarrow> met_min_epochs s)
     \<and> (FitLoop_min_steps s = Some 0 \<longrightarrow> met_min_steps s)"
    by (simp add: met_min_epochs_def met_min_steps_def)
  have b: "fst (FitLoop_done (s\<lparr>min_epochs := Some 0\<rparr>)) = fst (FitLoop_done (s\<lparr>min_epochs := None\<rparr>))
     \<and> should_stop (trainer (snd (FitLoop_done (s\<lparr>min_epochs := Some 0\<rparr>))))
       = should_stop (trainer (snd (FitLoop_done (s\<lparr>min_epochs := None\<rparr>))))"
    by (simp add: FitLoop_done_def met_min_epochs_def met_min_steps_def stop_steps_def
          stop_epochs_def current_epoch_def FitLoop_min_steps_def FitLoop_max_steps_def
          FitLoop_global_step_def split: option.splits)
  have c: "fst (FitLoop_done (s\<lparr>training_loop := (training_loop s)\<lparr>min_steps := Some 0\<rparr>\<rparr>))
       = fst (FitLoop_done (s\<lparr>training_loop := (training_loop s)\<lparr>min_steps := None\<rparr>\<rparr>))
     \<and> should_stop (trainer (snd (FitLoop_done (s\<lparr>training_loop := (training_loop s)\<lparr>min_steps := Some 0\<rparr>\<rparr>))))
       = should_stop (trainer (snd (FitLoop_done (s\<lparr>training_loop := (training_loop s)\<lparr>min_steps := None\<rparr>\<rparr>))))"
    by (simp add: FitLoop_done_def met_min_epochs_def met_min_steps_def stop_steps_def
          stop_epochs_def current_epoch_def FitLoop_min_steps_def FitLoop_max_steps_def
          FitLoop_global_step_def split: option.splits)
  have d: "(should_stop (trainer s) \<and> min_epochs s = Some 0 \<and> met_min_steps s
        \<longrightarrow> fst (FitLoop_done s) = True \<and> snd (FitLoop_done s) = s)
     \<and> (should_stop (trainer s) \<and> met_min_epochs s \<and> FitLoop_min_steps s = Some 0
        \<longrightarrow> fst (FitLoop_done s) = True \<and> snd (FitLoop_done s) = s)"
    by (simp add: FitLoop_done_def met_min_epochs_def met_min_steps_def)
  have me: "\<not> met_min_epochs s \<longleftrightarrow> (\<exists>m. m \<noteq> 0 \<and> min_epochs s = Some m \<and> current_epoch s < m)"
    by (cases "min_epochs s") (auto simp: met_min_epochs_def)
  have ms: "\<not> met_min_steps s \<longleftrightarrow>
      (\<exists>m. m \<noteq> 0 \<and> FitLoop_min_steps s = Some m \<and> FitLoop_global_step s < m)"
    by (cases "FitLoop_min_steps s") (auto simp: met_min_steps_def)
  have e: "\<not> should_stop (trainer (snd (FitLoop_done s))) \<longleftrightarrow>
           (\<exists>m. m \<noteq> 0 \<and> min_epochs s = Some m \<and> current_epoch s < m)
           \<or> (\<exists>m. m \<noteq> 0 \<and> FitLoop_min_steps s = Some m \<and> FitLoop_global_step s < m)"
    if stop: "should_stop (trainer s)"
  proof -
    from stop have "\<not> should_stop (trainer (snd (FitLoop_done s)))
        \<longleftrightarrow> \<not> met_min_epochs s \<or> \<not> met_min_steps s"
      by (simp add: FitLoop_done_def)
    then show ?thesis by (simp only: me ms)
  qed
  from a b c d e show ?thesis by blast
qed

theorem zero_bound_is_unset_witness:
  "fst (FitLoop_done (stop_requested (FitLoop_init trainer0 (Some 0) None None None))) = True
   \<and> current_epoch (stop_requested (FitLoop_init trainer0 (Some 0) None None None)) = 0
   \<and> should_stop (trainer (snd (FitLoop_done (stop_requested (FitLoop_init trainer0 (Some 0) None None None)))))
   \<and> fst (FitLoop_done (stop_requested (FitLoop_init trainer0 None None (Some 0) None))) = True
   \<and> \<not> should_stop (trainer (snd (FitLoop_done (stop_requested (FitLoop_init trainer0 (Some 1) None None None)))))
   \<and> (\<exists>m. m \<noteq> 0 \<and> min_epochs (stop_requested (FitLoop_init trainer0 (Some 1) None None None)) = Some m
          \<and> current_epoch (stop_requested (FitLoop_init trainer0 (Some 1) None None None)) < m)"
  using zero_bound_is_unset [of "stop_requested (FitLoop_init trainer0 (Some 0) None None None)"]
    zero_bound_is_unset [of "stop_requested (FitLoop_init trainer0 None None (Some 0) None)"]
    zero_bound_is_unset [of "stop_requested (FitLoop_init trainer0 (Some 1) None None None)"]
  by (simp add: fit_simps)

text \<open>
  The claim as written fails in its last clause: a bound that defers a stop request
  need not be strictly positive. For a loop made with \<^verbatim>\<open>FitLoop(min_epochs=-1)\<close> whose
  \<open>current_epoch\<close> has been set to \<open>-2\<close>, the bound is negative and \<^verbatim>\<open>done\<close> defers the
  request: it clears \<^verbatim>\<open>should_stop\<close> and returns \<^verbatim>\<open>False\<close>.
\<close>

theorem zero_bound_is_unset_counterexample:
  "should_stop (trainer (set_current_epoch (- 2)
      (stop_requested (FitLoop_init trainer0 (Some (- 1)) None None None))))
   \<and> min_epochs (set_current_epoch (- 2)
      (stop_requested (FitLoop_init trainer0 (Some (- 1)) None None None))) = Some (- 1)
   \<and> FitLoop_min_steps (set_current_epoch (- 2)
      (stop_requested (FitLoop_init trainer0 (Some (- 1)) None None None))) = None
   \<and> \<not> should_stop (trainer (snd (FitLoop_done (set_current_epoch (- 2)
      (stop_requested (FitLoop_init trainer0 (Some (- 1)) None None None))))))
   \<and> fst (FitLoop_done (set_current_epoch (- 2)
      (stop_requested (FitLoop_init trainer0 (Some (- 1)) None None None)))) = False"
  by (simp add: fit_simps)

text \<open>
  C2 (amended). \<^verbatim>\<open>EvaluationLoop.done\<close> changes no state. \<^verbatim>\<open>FitLoop.done\<close> changes
  nothing when no stop is requested or the minimum conditions hold; when a stop is
  requested and a minimum condition fails, it resets \<^verbatim>\<open>trainer.should_stop\<close> and logs
  the deferral, and changes nothing else: the counters, the bounds, the child loop, the
  teardown flag, the calls made and every other field of the trainer stay as they were.
  A second evaluation right after the first changes nothing.
\<close>

theorem done_frame:
  "snd (EvaluationLoop_done e) = e
   \<and> (dl_max_batches e = Some m \<longrightarrow> fst (EvaluationLoop_done e) = Inr (m \<le> iteration_count e))
   \<and> snd (FitLoop_done s) =
       (if should_stop (trainer s) \<and> \<not> (met_min_epochs s \<and> met_min_steps s)
        then s\<lparr> trainer := (trainer s)\<lparr>should_stop := False\<rparr>,
                info_log := info_log s @ [Stop_deferred (min_epochs s) (FitLoop_min_steps s)] \<rparr>
        else s)
   \<and> fst (FitLoop_done s)
       = (stop_steps s \<or> (should_stop (trainer s) \<and> met_min_epochs s \<and> met_min_steps s)
          \<or> stop_epochs s)
   \<and> iteration_count (snd (FitLoop_done s)) = iteration_count s
   \<and> training_loop (snd (FitLoop_done s)) = training_loop s
   \<and> max_epochs (snd (FitLoop_done s)) = max_epochs s
   \<and> min_epochs (snd (FitLoop_done s)) = min_epochs s
   \<and> teardown_already_run (snd (FitLoop_done s)) = teardown_already_run s
   \<and> calls (snd (FitLoop_done s)) = calls s
   \<and> (trainer (snd (FitLoop_done s)))\<lparr>should_stop := b\<rparr> = (trainer s)\<lparr>should_stop := b\<rparr>
   \<and> snd (FitLoop_done (snd (FitLoop_done s))) = snd (FitLoop_done s)"
proof -
  have ev: "snd (EvaluationLoop_done e) = e
     \<and> (dl_max_batches e = Some m \<longrightarrow> fst (EvaluationLoop_done e) = Inr (m \<le> iteration_count e))"
    by (simp add: EvaluationLoop_done_def py_raise_def py_return_def split: option.splits)
  have fit: "snd (FitLoop_done s) =
       (if should_stop (trainer s) \<and> \<not> (met_min_epochs s \<and> met_min_steps s)
        then s\<lparr> trainer := (trainer s)\<lparr>should_stop := False\<rparr>,
                info_log := info_log s @ [Stop_deferred (min_epochs s) (FitLoop_min_steps s)] \<rparr>
        else s)"
    by (simp add: FitLoop_done_def)
  have val: "fst (FitLoop_done s)
       = (stop_steps s \<or> (should_stop (trainer s) \<and> met_min_epochs s \<and> met_min_steps s)
          \<or> stop_epochs s)"
    by (auto simp: FitLoop_done_def)
  have again: "snd (FitLoop_done (snd (FitLoop_done s))) = snd (FitLoop_done s)"
    by (simp add: FitLoop_done_def)
  show ?thesis
    using ev val again by (simp add: fit)
qed

theorem done_frame_witness:
  "snd (EvaluationLoop_done ((EvaluationLoop_init trainer0 :: (nat, nat) evaluation_loop)
          \<lparr>dl_max_batches := Some 4\<rparr>))
     = (EvaluationLoop_init trainer0)\<lparr>dl_max_batches := Some 4\<rparr>
   \<and> fst (EvaluationLoop_done ((EvaluationLoop_init trainer0 :: (nat, nat) evaluation_loop)
          \<lparr>dl_max_batches := Some 4\<rparr>)) = Inr False
   \<and> snd (FitLoop_done (FitLoop_init trainer0 (Some 5) None None None))
     = FitLoop_init trainer0 (Some 5) None None None
   \<and> info_log (snd (FitLoop_done (stop_requested (FitLoop_init trainer0 (Some 5) None None None))))
     = [Stop_deferred (Some 5) None]
   \<and> calls (snd (FitLoop_done (stop_requested (FitLoop_init trainer0 (Some 5) None None None)))) = []"
  using done_frame [of "(EvaluationLoop_init trainer0 :: (nat, nat) evaluation_loop)
          \<lparr>dl_max_batches := Some 4\<rparr>" 4 "FitLoop_init trainer0 (Some 5) None None None" False]
    done_frame [of "(EvaluationLoop_init trainer0 :: (nat, nat) evaluation_loop)
          \<lparr>dl_max_batches := Some 4\<rparr>" 4 "stop_requested (FitLoop_init trainer0 (Some 5) None None None)" False]
  by (simp add: fit_simps EvaluationLoop_init_def)

text \<open>
  The claim as written fails: for \<^verbatim>\<open>FitLoop(min_epochs=5)\<close> at epoch 0 with a stop
  requested, evaluating \<^verbatim>\<open>done\<close> changes \<^verbatim>\<open>trainer.should_stop\<close>.
\<close>

theorem done_frame_counterexample:
  "should_stop (trainer (stop_requested (FitLoop_init trainer0 (Some 5) None None None)))
   \<and> \<not> should_stop (trainer (snd (FitLoop_done (stop_requested (FitLoop_init trainer0 (Some 5) None None None)))))"
  by (simp add: fit_simps)

section \<open>FitLoop.reset and EvaluationLoop.reset\<close>

text \<open>
  C6 (amended). After \<^verbatim>\<open>reset()\<close> the iteration count is 0 in both loops.
  \<^verbatim>\<open>EvaluationLoop.reset\<close> gives every field of the run a fresh value (the prediction
  collection from the trainer's rank and world size, no bounds, no outputs); \<^verbatim>\<open>done\<close>
  raises \<^verbatim>\<open>TypeError\<close> until \<^verbatim>\<open>on_run_start\<close> has stored \<open>dl_max_batches\<close>, and then
  depends on the argument of the run only. \<^verbatim>\<open>FitLoop.reset\<close> sets the iteration count
  and nothing else: the child loop with its global step, the teardown flag and the
  trainer stay as the previous run left them, and \<^verbatim>\<open>done\<close> after the reset is decided by
  them and by the bounds.
\<close>

theorem reset_state:
  "iteration_count (snd (EvaluationLoop_reset e)) = 0
   \<and> fst (EvaluationLoop_reset e) = Inr ()
   \<and> predictions (snd (EvaluationLoop_reset e))
       = Some (PredictionCollection_init (global_rank (trainer e)) (world_size (trainer e)))
   \<and> dl_max_batches (snd (EvaluationLoop_reset e)) = None
   \<and> dataloader_idx (snd (EvaluationLoop_reset e)) = None
   \<and> num_dataloaders (snd (EvaluationLoop_reset e)) = None
   \<and> outputs (snd (EvaluationLoop_reset e)) = []
   \<and> fst (EvaluationLoop_done (snd (EvaluationLoop_reset e))) = Inl TypeError
   \<and> fst (EvaluationLoop_done (snd (EvaluationLoop_on_run_start args (snd (EvaluationLoop_reset e)))))
       = Inr (arg_dl_max_batches args \<le> 0)
   \<and> FitLoop_reset s = (Inr (), s\<lparr>iteration_count := 0\<rparr>)
   \<and> iteration_count (snd (FitLoop_reset s)) = 0
   \<and> training_loop (snd (FitLoop_reset s)) = training_loop s
   \<and> teardown_already_run (snd (FitLoop_reset s)) = teardown_already_run s
   \<and> trainer (snd (FitLoop_reset s)) = trainer s
   \<and> fst (FitLoop_done (snd (FitLoop_reset s)))
       = (stop_steps s
          \<or> (should_stop (trainer s) \<and> met_min_steps s
              \<and> (case min_epochs s of None \<Rightarrow> True | Some m \<Rightarrow> m \<le> 0))
          \<or> (case max_epochs s of None \<Rightarrow> False | Some m \<Rightarrow> m \<le> 0))"
proof -
  have ev: "snd (EvaluationLoop_reset e) =
      e\<lparr> iteration_count := 0,
        predictions := Some (PredictionCollection_init (global_rank (trainer e)) (world_size (trainer e))),
        dl_max_batches := None, dataloader_idx := None, num_dataloaders := None, outputs := [] \<rparr>
      \<and> fst (EvaluationLoop_reset e) = Inr ()"
    by (simp add: EvaluationLoop_reset_def py_modify_def)
  have done_reset: "fst (EvaluationLoop_done (snd (EvaluationLoop_reset e))) = Inl TypeError"
    by (simp add: ev EvaluationLoop_done_def py_raise_def)
  have done_start:
    "fst (EvaluationLoop_done (snd (EvaluationLoop_on_run_start args (snd (EvaluationLoop_reset e)))))
       = Inr (arg_dl_max_batches args \<le> 0)"
    by (simp add: ev EvaluationLoop_on_run_start_def EvaluationLoop_done_def py_modify_def
          py_return_def)
  have fit: "FitLoop_reset s = (Inr (), s\<lparr>iteration_count := 0\<rparr>)"
    by (simp add: FitLoop_reset_def py_modify_def)
  have fit_done: "fst (FitLoop_done (s\<lparr>iteration_count := 0\<rparr>))
       = (stop_steps s
          \<or> (should_stop (trainer s) \<and> met_min_steps s
              \<and> (case min_epochs s of None \<Rightarrow> True | Some m \<Rightarrow> m \<le> 0))
          \<or> (case max_epochs s of None \<Rightarrow> False | Some m \<Rightarrow> m \<le> 0))"
    by (cases "min_epochs s")
       (auto simp: FitLoop_done_def stop_steps_def stop_epochs_def met_min_epochs_def
          met_min_steps_def current_epoch_def FitLoop_min_steps_def FitLoop_max_steps_def
          FitLoop_global_step_def split: option.splits)
  show ?thesis
    using done_reset done_start fit_done by (simp add: ev fit)
qed

theorem reset_state_witness:
  "snd (EvaluationLoop_reset ((EvaluationLoop_init trainer0 :: (nat, nat) evaluation_loop)
          \<lparr>iteration_count := 4, dl_max_batches := Some 4, outputs := [Step_output 1]\<rparr>))
     = (EvaluationLoop_init trainer0)\<lparr>predictions := Some (PredictionCollection_init 0 1)\<rparr>
   \<and> fst (EvaluationLoop_done (snd (EvaluationLoop_on_run_start eval_args0
          (snd (EvaluationLoop_reset ((EvaluationLoop_init trainer0 :: (nat, nat) evaluation_loop)
             \<lparr>iteration_count := 4, dl_max_batches := Some 4, outputs := [Step_output 1]\<rparr>))))))
     = Inr False
   \<and> snd (FitLoop_reset (set_global_step 10 (set_current_epoch 2
          (FitLoop_init trainer0 None None None (Some 10)))))
     = set_global_step 10 (FitLoop_init trainer0 None None None (Some 10))"
  using reset_state [of "(EvaluationLoop_init trainer0 :: (nat, nat) evaluation_loop)
          \<lparr>iteration_count := 4, dl_max_batches := Some 4, outputs := [Step_output 1]\<rparr>" eval_args0
       "set_global_step 10 (set_current_epoch 2 (FitLoop_init trainer0 None None None (Some 10)))"]
  by (simp add: fit_simps EvaluationLoop_init_def EvaluationLoop_reset_def py_modify_def
        eval_args0_def)

text \<open>
  The claim as written fails for \<^verbatim>\<open>FitLoop\<close>: of two loops made with \<^verbatim>\<open>max_steps=10\<close>,
  the fresh one is not done after \<^verbatim>\<open>reset()\<close>, and the one whose previous run left the
  global step at 10 is.
\<close>

theorem reset_state_counterexample:
  "fst (FitLoop_done (snd (FitLoop_reset (FitLoop_init trainer0 None None None (Some 10))))) = False
   \<and> fst (FitLoop_done (snd (FitLoop_reset (set_global_step 10 (FitLoop_init trainer0 None None None (Some 10)))))) = True"
  by (simp add: fit_simps FitLoop_reset_def py_modify_def)

section \<open>EvaluationLoop: the arguments of a step\<close>

text \<open>
  C7. The dictionary that \<^verbatim>\<open>_build_kwargs\<close> builds for the step function holds \<open>batch\<close>
  and \<open>batch_idx\<close>, and holds \<open>dataloader_idx\<close> if and only if \<open>num_dataloaders > 1\<close>, in
  test mode and in validation mode alike; it holds nothing else. The only other outcome
  is the \<^verbatim>\<open>TypeError\<close> of comparing an unset \<open>num_dataloaders\<close>, and then no dictionary
  is built (\<^verbatim>\<open>advance\<close> asserts that it is set before the step).
\<close>

theorem build_kwargs_contract:
  "(case build_kwargs s batch batch_idx dl_idx of
      Inl e \<Rightarrow> e = TypeError \<and> num_dataloaders s = None
    | Inr kw \<Rightarrow>
        (\<exists>n. num_dataloaders s = Some n
           \<and> map_of kw ''batch'' = Some (Batch_arg batch)
           \<and> map_of kw ''batch_idx'' = Some (Int_arg batch_idx)
           \<and> (''dataloader_idx'' \<in> fst ` set kw \<longleftrightarrow> n > 1)
           \<and> map_of kw ''dataloader_idx'' = (if n > 1 then Some (Int_arg dl_idx) else None)
           \<and> kw = [(''batch'', Batch_arg batch), (''batch_idx'', Int_arg batch_idx)]
                  @ (if n > 1 then [(''dataloader_idx'', Int_arg dl_idx)] else [])))"
  by (auto simp: build_kwargs_def Let_def split: option.splits)

theorem build_kwargs_contract_witness:
  "build_kwargs ((EvaluationLoop_init trainer0 :: (nat, nat) evaluation_loop)\<lparr>num_dataloaders := Some 1\<rparr>) 7 0 0
     = Inr [(''batch'', Batch_arg 7), (''batch_idx'', Int_arg 0)]
   \<and> build_kwargs ((EvaluationLoop_init (trainer0\<lparr>testing := True\<rparr>) :: (nat, nat) evaluation_loop)\<lparr>num_dataloaders := Some 2\<rparr>) 7 0 1
     = Inr [(''batch'', Batch_arg 7), (''batch_idx'', Int_arg 0), (''dataloader_idx'', Int_arg 1)]"
  using build_kwargs_contract [of "(EvaluationLoop_init trainer0 :: (nat, nat) evaluation_loop)\<lparr>num_dataloaders := Some 1\<rparr>" 7 0 0]
    build_kwargs_contract [of "(EvaluationLoop_init (trainer0\<lparr>testing := True\<rparr>) :: (nat, nat) evaluation_loop)\<lparr>num_dataloaders := Some 2\<rparr>" 7 0 1]
  by (auto simp: EvaluationLoop_init_def split: sum.splits)

section \<open>FitLoop.run\<close>

text \<open>
  C8. If \<^verbatim>\<open>done\<close> is true at entry, or the trainer has no training batches, \<^verbatim>\<open>run()\<close>
  returns \<^verbatim>\<open>None\<close> in the state that evaluating \<^verbatim>\<open>done\<close> left, whatever the
  collaborators are: \<open>current_epoch\<close> is not reset or changed, no collaborator is called
  (no hook, no child loop), and the child loop and the teardown flag are as before.
\<close>

theorem FitLoop_run_skip:
  assumes "fst (FitLoop_done s) \<or> num_training_batches (trainer s) = 0"
  shows "FitLoop_run E s = Some (Inr (), snd (FitLoop_done s))
    \<and> current_epoch (snd (FitLoop_done s)) = current_epoch s
    \<and> calls (snd (FitLoop_done s)) = calls s
    \<and> training_loop (snd (FitLoop_done s)) = training_loop s
    \<and> teardown_already_run (snd (FitLoop_done s)) = teardown_already_run s"
  using assms
  by (auto simp: FitLoop_run_def should_skip_training_def FitLoop_done_def current_epoch_def
      split: prod.splits if_splits)

theorem FitLoop_run_skip_witness:
  "FitLoop_run fit_env0 (set_current_epoch 7 (FitLoop_init (trainer0\<lparr>num_training_batches := 0\<rparr>) None None None None))
     = Some (Inr (), set_current_epoch 7 (FitLoop_init (trainer0\<lparr>num_training_batches := 0\<rparr>) None None None None))
   \<and> FitLoop_run fit_env0 (set_current_epoch 3 (FitLoop_init trainer0 (Some 1) (Some 3) None None))
     = Some (Inr (), set_current_epoch 3 (FitLoop_init trainer0 (Some 1) (Some 3) None None))"
  using FitLoop_run_skip [of "set_current_epoch 7 (FitLoop_init (trainer0\<lparr>num_training_batches := 0\<rparr>) None None None None)" fit_env0]
    FitLoop_run_skip [of "set_current_epoch 3 (FitLoop_init trainer0 (Some 1) (Some 3) None None)" fit_env0]
  by (simp add: fit_simps)

section \<open>FitLoop.on_run_end\<close>

lemma on_run_end_unfold:
  "\<not> teardown_already_run s \<Longrightarrow>
   FitLoop_on_run_end E s =
     teardown_rest E (s\<lparr> teardown_already_run := True,
          iteration_count := iteration_count s - 1,
          training_loop := (training_loop s)\<lparr>global_step := global_step (training_loop s) - 1\<rparr> \<rparr>)"
  by (simp add: FitLoop_on_run_end_def teardown_rest_def py_seq_modify_Cons set_current_epoch_def
        current_epoch_def)

lemma on_run_end_sets_flag: "teardown_already_run (snd (FitLoop_on_run_end E s))"
proof (cases "teardown_already_run s")
  case True
  then show ?thesis by (simp add: FitLoop_on_run_end_def py_return_def)
next
  case False
  have "preserves teardown_already_run (teardown_rest E)"
    by (rule preserves_teardown_rest) simp_all
  then show ?thesis using False
    by (simp add: on_run_end_unfold preserves_def)
qed

lemma on_run_end_again:
  "teardown_already_run s \<Longrightarrow> FitLoop_on_run_end E s = (Inr (), s)"
  by (simp add: FitLoop_on_run_end_def py_return_def)

lemma on_run_end_funpow:
  "((\<lambda>s. snd (FitLoop_on_run_end E s)) ^^ Suc n) s = snd (FitLoop_on_run_end E s)"
proof (induction n)
  case 0
  show ?case by simp
next
  case (Suc n)
  have "((\<lambda>s. snd (FitLoop_on_run_end E s)) ^^ Suc (Suc n)) s
      = snd (FitLoop_on_run_end E (((\<lambda>s. snd (FitLoop_on_run_end E s)) ^^ Suc n) s))"
    by simp
  also have "\<dots> = snd (FitLoop_on_run_end E (snd (FitLoop_on_run_end E s)))"
    by (simp only: Suc.IH)
  also have "\<dots> = snd (FitLoop_on_run_end E s)"
    by (simp add: on_run_end_again on_run_end_sets_flag)
  finally show ?case .
qed

lemma on_run_end_calls_Suc:
  "on_run_end_calls E (Suc n) s = snd (FitLoop_on_run_end E s)"
  unfolding on_run_end_calls_def by (rule on_run_end_funpow)

lemma on_run_end_epoch:
  "iteration_count (snd (FitLoop_on_run_end E s))
     = (if teardown_already_run s then iteration_count s else iteration_count s - 1)"
proof (cases "teardown_already_run s")
  case True
  then show ?thesis by (simp add: FitLoop_on_run_end_def py_return_def)
next
  case False
  have "preserves iteration_count (teardown_rest E)"
    by (rule preserves_teardown_rest) simp_all
  then show ?thesis using False
    by (simp add: on_run_end_unfold preserves_def)
qed

lemma teardown_rest_adds:
  assumes "c \<in> {Call_hook ''on_train_end'', Logger_finalize ''success'', Profiler_describe,
                 Accelerator_on_train_end}"
  shows "adds_at_most c 1 (teardown_rest E)"
proof -
  let ?ks = "[0, 0,
       if c = Call_hook ''on_train_end'' then 1 else 0,
       if c = Logger_finalize ''success'' then 1 else 0,
       if c = Profiler_describe then 1 else 0,
       if c = Accelerator_on_train_end then 1 else (0::nat)] @ [0]"
  have cc: "adds_at_most c 0 (check_checkpoint_callback E True True)"
    using assms by (intro adds_check_checkpoint_callback) auto
  have fin: "adds_at_most c (if c = Logger_finalize ''success'' then 1 else 0)
      (\<lambda>s. if logger (trainer s) \<noteq> None then call E (Logger_finalize ''success'') s
              else py_return () s)"
    by (auto intro!: adds_cond adds_call_same adds_call_other adds_mono [OF adds_return])
  have "list_all2 (adds_at_most c) ?ks [
        check_checkpoint_callback E True True,
        py_modify (\<lambda>s. s\<lparr>training_loop :=
             (training_loop s)\<lparr>global_step := global_step (training_loop s) + 1\<rparr>\<rparr>),
        call E (Call_hook ''on_train_end''),
        (\<lambda>s. if logger (trainer s) \<noteq> None then call E (Logger_finalize ''success'') s
              else py_return () s),
        call E Profiler_describe,
        call E Accelerator_on_train_end,
        py_modify (\<lambda>s. s\<lparr>trainer := (trainer s)\<lparr>running_stage := None\<rparr>\<rparr>)]"
    using cc fin
    by (auto intro!: adds_modify adds_call_same adds_call_other)
  from adds_seq [OF this] have "adds_at_most c (sum_list ?ks) (teardown_rest E)"
    by (simp only: teardown_rest_def)
  moreover have "sum_list ?ks = 1" using assms by auto
  ultimately show ?thesis by simp
qed

lemma on_run_end_adds:
  assumes "c \<in> {Call_hook ''on_train_end'', Logger_finalize ''success'', Profiler_describe,
                 Accelerator_on_train_end}"
  shows "adds_at_most c 1 (FitLoop_on_run_end E)"
  unfolding adds_at_most_def
proof
  fix s :: fit_loop
  show "count_list (calls (snd (FitLoop_on_run_end E s))) c \<le> count_list (calls s) c + 1"
  proof (cases "teardown_already_run s")
    case True
    then show ?thesis by (simp add: FitLoop_on_run_end_def py_return_def)
  next
    case False
    let ?s = "s\<lparr> teardown_already_run := True, iteration_count := iteration_count s - 1,
      training_loop := (training_loop s)\<lparr>global_step := global_step (training_loop s) - 1\<rparr> \<rparr>"
    from teardown_rest_adds [OF assms, of E]
    have "count_list (calls (snd (teardown_rest E ?s))) c \<le> count_list (calls ?s) c + 1"
      unfolding adds_at_most_def by blast
    with False show ?thesis by (simp add: on_run_end_unfold)
  qed
qed

lemma on_run_end_calls_adds:
  assumes "c \<in> {Call_hook ''on_train_end'', Logger_finalize ''success'', Profiler_describe,
                 Accelerator_on_train_end}"
  shows "count_list (calls (on_run_end_calls E n s)) c \<le> count_list (calls s) c + 1"
proof (cases n)
  case 0
  then show ?thesis by (simp add: on_run_end_calls_def)
next
  case (Suc k)
  with on_run_end_adds [OF assms, of E] show ?thesis
    by (simp add: on_run_end_calls_Suc adds_at_most_def)
qed

text \<open>
  C3. \<^verbatim>\<open>on_run_end\<close> takes effect once per \<^verbatim>\<open>FitLoop\<close>: after any number of calls the
  flag is set and the state is the one the first call left; a call on a loop whose flag
  is set returns at once and changes nothing; \<open>current_epoch\<close> is decremented once, by
  the call that finds the flag unset; and however many calls are made, and whether or not
  a collaborator raises, the \<open>on_train_end\<close> hook, the logger's \<open>finalize\<close>, the
  profiler's \<open>describe\<close> and the accelerator's \<open>on_train_end\<close> are each called at most
  once.
\<close>

theorem on_run_end_idempotent:
  "teardown_already_run (on_run_end_calls E (Suc n) s)
   \<and> on_run_end_calls E (Suc n) s = on_run_end_calls E 1 s
   \<and> FitLoop_on_run_end E (on_run_end_calls E (Suc n) s) = (Inr (), on_run_end_calls E (Suc n) s)
   \<and> (teardown_already_run s \<longrightarrow> FitLoop_on_run_end E s = (Inr (), s))
   \<and> current_epoch (on_run_end_calls E (Suc n) s)
       = (if teardown_already_run s then current_epoch s else current_epoch s - 1)
   \<and> count_list (calls (on_run_end_calls E k s)) (Call_hook ''on_train_end'')
       \<le> count_list (calls s) (Call_hook ''on_train_end'') + 1
   \<and> count_list (calls (on_run_end_calls E k s)) (Logger_finalize ''success'')
       \<le> count_list (calls s) (Logger_finalize ''success'') + 1
   \<and> count_list (calls (on_run_end_calls E k s)) Profiler_describe
       \<le> count_list (calls s) Profiler_describe + 1
   \<and> count_list (calls (on_run_end_calls E k s)) Accelerator_on_train_end
       \<le> count_list (calls s) Accelerator_on_train_end + 1"
proof -
  have flag: "teardown_already_run (on_run_end_calls E (Suc n) s)"
    by (simp only: on_run_end_calls_Suc on_run_end_sets_flag)
  have one: "on_run_end_calls E (Suc n) s = on_run_end_calls E 1 s"
    by (simp only: on_run_end_calls_Suc One_nat_def)
  have again: "FitLoop_on_run_end E (on_run_end_calls E (Suc n) s) = (Inr (), on_run_end_calls E (Suc n) s)"
    using flag by (rule on_run_end_again)
  have epoch: "current_epoch (on_run_end_calls E (Suc n) s)
       = (if teardown_already_run s then current_epoch s else current_epoch s - 1)"
    by (simp only: on_run_end_calls_Suc current_epoch_def on_run_end_epoch)
  show ?thesis
    using flag one again epoch on_run_end_again [of s E]
      on_run_end_calls_adds [of "Call_hook ''on_train_end''" E k s]
      on_run_end_calls_adds [of "Logger_finalize ''success''" E k s]
      on_run_end_calls_adds [of Profiler_describe E k s]
      on_run_end_calls_adds [of Accelerator_on_train_end E k s]
    by simp
qed

theorem on_run_end_idempotent_witness:
  "calls (on_run_end_calls fit_env0 1 (set_current_epoch 3 (FitLoop_init trainer0 (Some 1) (Some 3) None None)))
     = [Checkpoint_on_validation_end 0 (- 1), Call_hook ''on_train_end'', Logger_finalize ''success'',
        Profiler_describe, Accelerator_on_train_end]
   \<and> on_run_end_calls fit_env0 3 (set_current_epoch 3 (FitLoop_init trainer0 (Some 1) (Some 3) None None))
     = on_run_end_calls fit_env0 1 (set_current_epoch 3 (FitLoop_init trainer0 (Some 1) (Some 3) None None))
   \<and> current_epoch (on_run_end_calls fit_env0 3 (set_current_epoch 3 (FitLoop_init trainer0 (Some 1) (Some 3) None None))) = 2"
  using on_run_end_idempotent [of fit_env0 2 "set_current_epoch 3 (FitLoop_init trainer0 (Some 1) (Some 3) None None)" 0]
  by (simp add: on_run_end_calls_def fit_simps run_simps numeral_3_eq_3)

section \<open>A run of three epochs\<close>

lemma inv_call:
  assumes "quiet E" and "c \<noteq> Training_loop_run"
  shows "returns (epochs_inv k n) (call E c) (epochs_inv k n)"
  using assms
  by (intro returns_call) (auto simp: quiet_def epochs_inv_def)

lemma inv_call_state:
  assumes "quiet E" and "\<And>x. c x \<noteq> Training_loop_run"
  shows "returns (epochs_inv k n) (\<lambda>s. call E (c (g s)) s) (epochs_inv k n)"
  unfolding returns_def
proof (intro allI impI)
  fix s assume "epochs_inv k n s"
  moreover have "returns (epochs_inv k n) (call E (c (g s))) (epochs_inv k n)"
    by (rule inv_call [OF assms(1) assms(2)])
  ultimately show "\<exists>a s'. call E (c (g s)) s = (Inr a, s') \<and> epochs_inv k n s'"
    by (simp add: returns_def)
qed

lemma inv_modify:
  assumes "\<And>s. iteration_count (f s) = iteration_count s \<and> calls (f s) = calls s
      \<and> should_stop (trainer (f s)) = should_stop (trainer s)
      \<and> max_steps (training_loop (f s)) = max_steps (training_loop s)
      \<and> max_epochs (f s) = max_epochs s \<and> teardown_already_run (f s) = teardown_already_run s"
  shows "returns (epochs_inv k n) (py_modify f) (epochs_inv k n)"
  using assms by (intro returns_modify) (simp add: epochs_inv_def)

lemma inv_return: "returns (epochs_inv k n) (py_return a) (epochs_inv k n)"
  by (rule returns_return)

lemma inv_on_run_start:
  assumes "quiet E"
  shows "returns (epochs_inv k n) (FitLoop_on_run_start E ()) (epochs_inv k n)"
  unfolding FitLoop_on_run_start_def using assms
  by (auto intro!: returns_seq_same inv_call)

lemmas inv_seq = returns_seq_Cons [where Q = "epochs_inv k n" and P = "epochs_inv k n"] for k n

lemma inv_on_advance_start:
  assumes "quiet E"
  shows "returns (epochs_inv k n) (FitLoop_on_advance_start E ()) (epochs_inv k n)"
  unfolding FitLoop_on_advance_start_def
  apply (intro inv_seq returns_seq_Nil returns_cond returns_suppress inv_return
      inv_call [OF assms] inv_call_state [OF assms, where c = Sampler_set_epoch and g = current_epoch]
      inv_modify)
           apply simp_all
  done

lemma inv_run_training_loop:
  assumes "quiet E"
  shows "returns (epochs_inv k n) (run_training_loop E) (epochs_inv k (Suc n))"
  unfolding returns_def
proof (intro allI impI)
  fix s assume inv: "epochs_inv k n s"
  from assms obtain out tl' t' where
    r: "training_loop_run E (training_loop s) (trainer s) = (Inr out, tl', t')"
    and ms: "max_steps (training_loop s) = None \<longrightarrow> max_steps tl' = None"
    and st: "\<not> should_stop (trainer s) \<longrightarrow> \<not> should_stop t'"
    unfolding quiet_def by metis
  with inv show "\<exists>a s'. run_training_loop E s = (Inr a, s') \<and> epochs_inv k (Suc n) s'"
    by (simp add: run_training_loop_def epochs_inv_def)
qed

lemma inv_advance:
  assumes "quiet E"
  shows "returns (epochs_inv k n) (FitLoop_advance E ()) (epochs_inv k (Suc n))"
  unfolding FitLoop_advance_def
  apply (rule inv_seq [OF inv_call [OF assms]], simp)
  apply (rule inv_seq [OF inv_call [OF assms]], simp)
  apply (rule returns_seq_Cons [where Q = "epochs_inv k (Suc n)"])
   apply (rule returns_profile [OF inv_call [OF assms] _ inv_call [OF assms]])
     apply simp
    apply (rule returns_bind [OF inv_run_training_loop [OF assms]])
    apply (intro returns_if inv_return inv_seq returns_seq_Nil inv_modify
      inv_call_state [OF assms, where c = Update_train_epoch_metrics and g = FitLoop_global_step])
        apply (simp_all add: set_global_step_def)
  apply (rule returns_seq_Nil)
  apply simp
  done

lemma inv_check_checkpoint_callback:
  assumes "quiet E"
  shows "returns (epochs_inv k n) (check_checkpoint_callback E su il) (epochs_inv k n)"
  using assms
  by (intro returns_check_checkpoint_callback) (auto simp: quiet_def epochs_inv_def)

lemma inv_on_advance_end:
  assumes "quiet E"
  shows "returns (epochs_inv k n) (FitLoop_on_advance_end E) (epochs_inv k n)"
  unfolding returns_def
proof (intro allI impI)
  fix s assume inv: "epochs_inv k n s"
  show "\<exists>a s'. FitLoop_on_advance_end E s = (Inr a, s') \<and> epochs_inv k n s'"
  proof (cases "batches_seen (training_loop s) = 0")
    case True
    with inv show ?thesis by (simp add: FitLoop_on_advance_end_def py_return_def)
  next
    case False
    have "returns (epochs_inv k n) (py_seq [
        call E (Update_lr_schedulers ''epoch''),
        (\<lambda>s. let did_train_only = (disable_validation (trainer s)
                     \<or> should_skip_evaluation E (num_val_batches (trainer s)))
              in if did_train_only then
                   py_seq [
                     py_modify (\<lambda>s. set_global_step (FitLoop_global_step s - 1) s),
                     check_checkpoint_callback E True False,
                     py_modify (\<lambda>s. set_global_step (FitLoop_global_step s + 1) s)] s
                 else py_return () s)]) (epochs_inv k n)"
      unfolding Let_def
      apply (intro inv_seq returns_seq_Nil returns_cond inv_return inv_modify inv_call [OF assms]
          inv_check_checkpoint_callback [OF assms])
           apply (simp_all add: set_global_step_def)
      done
    from returnsD [OF this inv] False show ?thesis
      by (simp add: FitLoop_on_advance_end_def)
  qed
qed

lemma inv_iteration:
  assumes "quiet E"
  shows "returns (epochs_inv k n) (Loop_iteration (FitLoop_methods E) ()) (epochs_inv (Suc k) (Suc n))"
  unfolding Loop_iteration_def FitLoop_methods_def loop_methods.simps
  apply (rule inv_seq [OF inv_on_advance_start [OF assms]])
  apply (rule returns_seq_Cons [OF inv_advance [OF assms]])
  apply (rule returns_seq_Cons [OF inv_on_advance_end [OF assms]])
  apply (rule returns_seq_Cons [where Q = "epochs_inv (Suc k) (Suc n)"])
   apply (rule returns_modify)
   apply (simp add: epochs_inv_def increment_iteration_def)
  apply (rule returns_seq_Nil)
  apply simp
  done

lemma inv_done:
  assumes "epochs_inv k n s"
  shows "FitLoop_done s = (3 \<le> k, s)"
  using assms
  by (simp add: FitLoop_done_def epochs_inv_def stop_steps_def stop_epochs_def
        FitLoop_max_steps_def current_epoch_def)

lemma inv_while:
  assumes "quiet E"
  shows "epochs_inv k k s \<Longrightarrow> k \<le> 3 \<Longrightarrow>
    \<exists>s'. Loop_while (FitLoop_methods E) () s = Some (Inr (), s') \<and> epochs_inv 3 3 s'"
proof (induction "3 - k" arbitrary: k s)
  case 0
  then have "k = 3" by simp
  with 0 inv_done [of k k s] show ?case
    by (subst Loop_while.simps) (simp add: FitLoop_methods_def)
next
  case (Suc j)
  then have k: "k < 3" by simp
  from returnsD [OF inv_iteration [OF assms] Suc.prems(1)] obtain s2 where
    it: "Loop_iteration (FitLoop_methods E) () s = (Inr (), s2)" and inv2: "epochs_inv (Suc k) (Suc k) s2"
    by auto
  from Suc.hyps(2) have "j = 3 - Suc k" by simp
  from Suc.hyps(1) [OF this inv2] k obtain s' where
    "Loop_while (FitLoop_methods E) () s2 = Some (Inr (), s')" "epochs_inv 3 3 s'"
    by auto
  with it k inv_done [OF Suc.prems(1)] show ?case
    by (subst Loop_while.simps) (simp add: FitLoop_methods_def)
qed

lemma torn_down_call:
  assumes "\<And>c t. fst (collab E c t) = Inr ()" and "c \<noteq> Training_loop_run"
  shows "returns torn_down (call E c) torn_down"
  using assms by (intro returns_call) (auto simp: torn_down_def)

lemma torn_down_rest:
  assumes hooks: "\<And>c t. fst (collab E c t) = Inr ()"
  shows "returns torn_down (teardown_rest E) torn_down"
  unfolding teardown_rest_def
  apply (intro returns_seq_Cons [where P = torn_down and Q = torn_down] returns_seq_Nil
      returns_cond returns_return returns_modify torn_down_call [OF hooks]
      returns_check_checkpoint_callback [OF hooks])
               apply (simp_all add: torn_down_def)
  done

text \<open>
  C9. A loop made with \<^verbatim>\<open>FitLoop(min_epochs=1, max_epochs=3)\<close>, on a trainer that has
  training batches, with collaborators that return, a child loop that returns from every
  epoch, and no stop request or step bound set by either: \<^verbatim>\<open>run()\<close> returns, the child
  loop has run three times, the teardown has run, and \<open>current_epoch\<close> is 2 (counted up
  to 3 by \<^verbatim>\<open>Loop.run\<close>, decremented once by \<^verbatim>\<open>on_run_end\<close>). The count does not depend
  on what the child loop returns.
\<close>

theorem three_epochs:
  assumes hooks: "\<And>c t. fst (collab E c t) = Inr ()"
    and no_stop: "\<And>c t. \<not> should_stop t \<Longrightarrow> \<not> should_stop (snd (collab E c t))"
    and epoch: "\<And>tl t. \<exists>out tl' t'. training_loop_run E tl t = (Inr out, tl', t')
          \<and> (max_steps tl = None \<longrightarrow> max_steps tl' = None)
          \<and> (\<not> should_stop t \<longrightarrow> \<not> should_stop t')"
    and batches: "num_training_batches t0 \<noteq> 0"
  shows "\<exists>s'. FitLoop_run E (FitLoop_init t0 (Some 1) (Some 3) None None) = Some (Inr (), s')
     \<and> current_epoch s' = 2
     \<and> count_list (calls s') Training_loop_run = 3
     \<and> teardown_already_run s'"
proof -
  let ?s0 = "FitLoop_init t0 (Some 1) (Some 3) None None"
  let ?L = "FitLoop_methods E"
  have q: "quiet E"
    unfolding quiet_def using hooks no_stop epoch by blast
  have "\<exists>s1. should_skip_training ?s0 = (False, s1) \<and> epochs_inv 0 0 s1"
    using batches
    by (cases "should_stop t0") (simp_all add: should_skip_training_def fit_simps epochs_inv_def)
  then obtain s1 where skip: "should_skip_training ?s0 = (False, s1)" and inv1: "epochs_inv 0 0 s1"
    by blast
  have reset: "m_reset ?L s1 = (Inr (), s1)"
    using inv1 by (simp add: FitLoop_methods_def FitLoop_reset_def py_modify_def epochs_inv_def)
  from returnsD [OF inv_on_run_start [OF q] inv1] obtain s2 where
    start: "m_on_run_start ?L () s1 = (Inr (), s2)" and inv2: "epochs_inv 0 0 s2"
    by (auto simp: FitLoop_methods_def)
  from inv_while [OF q inv2] obtain s3 where
    while: "Loop_while ?L () s2 = Some (Inr (), s3)" and inv3: "epochs_inv 3 3 s3"
    by auto
  let ?s4 = "s3\<lparr> teardown_already_run := True, iteration_count := iteration_count s3 - 1,
      training_loop := (training_loop s3)\<lparr>global_step := global_step (training_loop s3) - 1\<rparr> \<rparr>"
  from inv3 have "torn_down ?s4" by (simp add: torn_down_def epochs_inv_def)
  from returnsD [OF torn_down_rest [OF hooks] this] obtain s5 where
    rest: "teardown_rest E ?s4 = (Inr (), s5)" and fin: "torn_down s5"
    by auto
  from inv3 rest have "m_on_run_end ?L s3 = (Inr (), s5)"
    by (simp add: FitLoop_methods_def on_run_end_unfold epochs_inv_def)
  with skip reset start while have "FitLoop_run E ?s0 = Some (Inr (), s5)"
    by (simp add: FitLoop_run_def Loop_run_def)
  with fin show ?thesis by (simp add: torn_down_def current_epoch_def)
qed

theorem three_epochs_witness:
  "map_option fst (FitLoop_run fit_env0 (FitLoop_init trainer0 (Some 1) (Some 3) None None)) = Some (Inr ())
   \<and> map_option (current_epoch \<circ> snd) (FitLoop_run fit_env0 (FitLoop_init trainer0 (Some 1) (Some 3) None None)) = Some 2
   \<and> map_option (\<lambda>r. count_list (calls (snd r)) Training_loop_run)
        (FitLoop_run fit_env0 (FitLoop_init trainer0 (Some 1) (Some 3) None None)) = Some 3"
proof -
  have "\<exists>s'. FitLoop_run fit_env0 (FitLoop_init trainer0 (Some 1) (Some 3) None None) = Some (Inr (), s')
     \<and> current_epoch s' = 2
     \<and> count_list (calls s') Training_loop_run = 3
     \<and> teardown_already_run s'"
    by (rule three_epochs) (simp_all add: fit_env0_def trainer0_def)
  then show ?thesis by auto
qed

section \<open>Loop.run: early termination and exceptions\<close>

lemma iterations_Loop_while:
  "iterations L args s s' \<Longrightarrow> Loop_while L args s = Loop_while L args s'"
proof (induction rule: iterations.induct)
  case (iterations_refl s)
  show ?case ..
next
  case (iterations_step s s1 s2 s')
  have "Loop_while L args s = Loop_while L args s2"
    by (subst Loop_while.simps) (simp add: iterations_step.hyps)
  with iterations_step.IH show ?case by simp
qed

lemma Loop_iteration_cases:
  "Loop_iteration L args s =
     (case m_on_advance_start L args s of
        (Inl e, s1) \<Rightarrow> (Inl e, s1)
      | (Inr u, s1) \<Rightarrow>
          (case m_advance L args s1 of
             (Inl e, s2) \<Rightarrow> (Inl e, s2)
           | (Inr u, s2) \<Rightarrow>
               (case m_on_advance_end L s2 of
                  (Inl e, s3) \<Rightarrow> (Inl e, s3)
                | (Inr u, s3) \<Rightarrow> (Inr (), s3\<lparr>iteration_count := iteration_count s3 + 1\<rparr>))))"
  by (simp add: Loop_iteration_def py_seq.simps py_bind_def py_modify_def py_return_def
        increment_iteration_def split: prod.splits sum.splits)

lemma Loop_run_from:
  assumes "m_reset L s = (Inr (), sa)" and "m_on_run_start L args sa = (Inr (), sb)"
    and "iterations L args sb sc"
  shows "Loop_run L args s =
     (case Loop_while L args sc of
        None \<Rightarrow> None
      | Some (Inl e, s3) \<Rightarrow> Some (Inl e, s3)
      | Some (Inr u, s3) \<Rightarrow> Some (m_on_run_end L s3))"
  using assms by (simp add: Loop_run_def iterations_Loop_while)

text \<open>
  C5. Let \<^verbatim>\<open>run\<close> have reset the loop, run \<^verbatim>\<open>on_run_start\<close> and completed any number of
  iterations, and let \<^verbatim>\<open>done\<close> be false. If \<^verbatim>\<open>advance\<close> raises \<^verbatim>\<open>StopIteration\<close>,
  \<^verbatim>\<open>run\<close> calls \<^verbatim>\<open>on_run_end\<close> in the very state \<^verbatim>\<open>advance\<close> left (no \<^verbatim>\<open>on_advance_end\<close>,
  no increment) and returns its result. Any other exception of \<^verbatim>\<open>on_advance_start\<close>,
  \<^verbatim>\<open>advance\<close> or \<^verbatim>\<open>on_advance_end\<close> leaves \<^verbatim>\<open>run\<close> unchanged, in the state it was raised
  in, and so does an exception of \<^verbatim>\<open>on_run_start\<close>, of \<^verbatim>\<open>reset\<close> or of \<^verbatim>\<open>done\<close>; when the
  loop ends because \<^verbatim>\<open>done\<close> is true, the outcome of \<^verbatim>\<open>run\<close> is the outcome of
  \<^verbatim>\<open>on_run_end\<close>, an exception included.
  \<^verbatim>\<open>EvaluationLoop.advance\<close> raises \<^verbatim>\<open>StopIteration\<close> when the iterator yields a \<^verbatim>\<open>None\<close>
  batch, having consumed it, and when the iterator is exhausted.
\<close>

theorem Loop_run_early_termination:
  "(m_reset L s = (Inr (), sa) \<and> m_on_run_start L args sa = (Inr (), sb) \<and> iterations L args sb sc
      \<and> m_done L sc = (Inr False, s1)
      \<and> m_on_advance_start L args s1 = (Inr (), s2) \<and> m_advance L args s2 = (Inl StopIteration, s3)
    \<longrightarrow> Loop_run L args s = Some (m_on_run_end L s3))
   \<and> (m_reset L s = (Inr (), sa) \<and> m_on_run_start L args sa = (Inr (), sb) \<and> iterations L args sb sc
      \<and> m_done L sc = (Inr False, s1) \<and> e \<noteq> StopIteration
      \<and> m_on_advance_start L args s1 = (Inl e, s2)
    \<longrightarrow> Loop_run L args s = Some (Inl e, s2))
   \<and> (m_reset L s = (Inr (), sa) \<and> m_on_run_start L args sa = (Inr (), sb) \<and> iterations L args sb sc
      \<and> m_done L sc = (Inr False, s1) \<and> e \<noteq> StopIteration
      \<and> m_on_advance_start L args s1 = (Inr (), s2) \<and> m_advance L args s2 = (Inl e, s3)
    \<longrightarrow> Loop_run L args s = Some (Inl e, s3))
   \<and> (m_reset L s = (Inr (), sa) \<and> m_on_run_start L args sa = (Inr (), sb) \<and> iterations L args sb sc
      \<and> m_done L sc = (Inr False, s1) \<and> e \<noteq> StopIteration
      \<and> m_on_advance_start L args s1 = (Inr (), s2) \<and> m_advance L args s2 = (Inr (), s3)
      \<and> m_on_advance_end L s3 = (Inl e, s4)
    \<longrightarrow> Loop_run L args s = Some (Inl e, s4))
   \<and> (m_reset L s = (Inr (), sa) \<and> m_on_run_start L args sa = (Inl e, sb)
    \<longrightarrow> Loop_run L args s = Some (Inl e, sb))
   \<and> (m_reset L s = (Inl e, sa) \<longrightarrow> Loop_run L args s = Some (Inl e, sa))
   \<and> (m_reset L s = (Inr (), sa) \<and> m_on_run_start L args sa = (Inr (), sb) \<and> iterations L args sb sc
      \<and> m_done L sc = (Inl e, s1)
    \<longrightarrow> Loop_run L args s = Some (Inl e, s1))
   \<and> (m_reset L s = (Inr (), sa) \<and> m_on_run_start L args sa = (Inr (), sb) \<and> iterations L args sb sc
      \<and> m_done L sc = (Inr True, s1)
    \<longrightarrow> Loop_run L args s = Some (m_on_run_end L s1))
   \<and> (dataloader_iter ev = (i, None) # rest
    \<longrightarrow> EvaluationLoop_advance E eargs ev = (Inl StopIteration, ev\<lparr>dataloader_iter := rest\<rparr>))
   \<and> (dataloader_iter ev = []
    \<longrightarrow> EvaluationLoop_advance E eargs ev = (Inl StopIteration, ev))"
proof -
  have stop: "Loop_run L args s = Some (m_on_run_end L s3)"
    if "m_reset L s = (Inr (), sa)" "m_on_run_start L args sa = (Inr (), sb)" "iterations L args sb sc"
      "m_done L sc = (Inr False, s1)" "m_on_advance_start L args s1 = (Inr (), s2)"
      "m_advance L args s2 = (Inl StopIteration, s3)" for s3
  proof -
    have "Loop_while L args sc = Some (Inr (), s3)"
      by (subst Loop_while.simps) (simp add: that Loop_iteration_cases)
    with that show ?thesis by (simp add: Loop_run_from)
  qed
  have exn: "Loop_run L args s = Some (Inl e, s')"
    if "m_reset L s = (Inr (), sa)" "m_on_run_start L args sa = (Inr (), sb)" "iterations L args sb sc"
      "m_done L sc = (Inr False, s1)" "e \<noteq> StopIteration" "Loop_iteration L args s1 = (Inl e, s')" for s'
  proof -
    have "Loop_while L args sc = Some (Inl e, s')"
      by (subst Loop_while.simps) (simp add: that)
    with that show ?thesis by (simp add: Loop_run_from)
  qed
  have fin: "Loop_run L args s = Some (m_on_run_end L s1)"
    if "m_reset L s = (Inr (), sa)" "m_on_run_start L args sa = (Inr (), sb)" "iterations L args sb sc"
      "m_done L sc = (Inr True, s1)"
  proof -
    have "Loop_while L args sc = Some (Inr (), s1)"
      by (subst Loop_while.simps) (simp add: that)
    with that show ?thesis by (simp add: Loop_run_from)
  qed
  have start: "Loop_run L args s = Some (Inl e, sb)"
    if "m_reset L s = (Inr (), sa)" "m_on_run_start L args sa = (Inl e, sb)"
    using that by (simp add: Loop_run_def)
  have reset: "Loop_run L args s = Some (Inl e, sa)" if "m_reset L s = (Inl e, sa)"
    using that by (simp add: Loop_run_def)
  have done_raises: "Loop_run L args s = Some (Inl e, s1)"
    if "m_reset L s = (Inr (), sa)" "m_on_run_start L args sa = (Inr (), sb)" "iterations L args sb sc"
      "m_done L sc = (Inl e, s1)"
  proof -
    have "Loop_while L args sc = Some (Inl e, s1)"
      by (subst Loop_while.simps) (simp add: that)
    with that show ?thesis by (simp add: Loop_run_from)
  qed
  have adv: "EvaluationLoop_advance E eargs ev = (Inl StopIteration, ev\<lparr>dataloader_iter := rest\<rparr>)"
    if "dataloader_iter ev = (i, None) # rest"
    using that by (simp add: EvaluationLoop_advance_def py_raise_def)
  have adv0: "EvaluationLoop_advance E eargs ev = (Inl StopIteration, ev)"
    if "dataloader_iter ev = []"
    using that by (simp add: EvaluationLoop_advance_def py_raise_def)
  show ?thesis
    using stop [of s3] exn [of s2] exn [of s3] exn [of s4] fin start reset done_raises adv adv0
    by (simp add: Loop_iteration_cases)
qed

theorem Loop_run_early_termination_witness:
  "map_option fst (EvaluationLoop_run eval_env0 [(0, Some 5), (1, None), (2, Some 6)] eval_args0
      (EvaluationLoop_init trainer0)) = Some (Inr [Step_output 5])
   \<and> map_option (iteration_count \<circ> snd) (EvaluationLoop_run eval_env0 [(0, Some 5), (1, None), (2, Some 6)]
      eval_args0 (EvaluationLoop_init trainer0)) = Some 1
   \<and> map_option (dataloader_iter \<circ> snd) (EvaluationLoop_run eval_env0 [(0, Some 5), (1, None), (2, Some 6)]
      eval_args0 (EvaluationLoop_init trainer0)) = Some [(2, Some 6)]"
proof -
  let ?L = "EvaluationLoop_methods eval_env0"
  let ?s = "(EvaluationLoop_init trainer0 :: (nat, nat) evaluation_loop)
              \<lparr>dataloader_iter := [(0, Some 5), (1, None), (2, Some 6)]\<rparr>"
  let ?sa = "snd (m_reset ?L ?s)"
  let ?sb = "snd (m_on_run_start ?L eval_args0 ?sa)"
  let ?sc = "snd (Loop_iteration ?L eval_args0 ?sb)"
  let ?s3 = "snd (m_advance ?L eval_args0 ?sc)"
  have 1: "m_reset ?L ?s = (Inr (), ?sa)" by (simp add: eval_simps)
  have 2: "m_on_run_start ?L eval_args0 ?sa = (Inr (), ?sb)" by (simp add: eval_simps)
  have 3: "m_done ?L ?sb = (Inr False, ?sb)" by (simp add: eval_simps)
  have 4: "Loop_iteration ?L eval_args0 ?sb = (Inr (), ?sc)"
    by (simp add: Loop_iteration_def eval_simps)
  have its: "iterations ?L eval_args0 ?sb ?sc"
    by (rule iterations_step [OF 3 4 iterations_refl])
  have 5: "m_done ?L ?sc = (Inr False, ?sc)"
    by (simp add: Loop_iteration_def increment_iteration_def eval_simps)
  have 6: "m_on_advance_start ?L eval_args0 ?sc = (Inr (), ?sc)" by (simp add: eval_simps)
  have 7: "m_advance ?L eval_args0 ?sc = (Inl StopIteration, ?s3)"
    by (simp add: Loop_iteration_def increment_iteration_def eval_simps)
  have "Loop_run ?L eval_args0 ?s = Some (m_on_run_end ?L ?s3)"
    using Loop_run_early_termination [of ?L ?s ?sa eval_args0 ?sb ?sc ?sc ?sc ?s3] 1 2 its 5 6 7
    by blast
  then show ?thesis
    by (simp add: EvaluationLoop_run_def)
       (simp add: Loop_iteration_def increment_iteration_def eval_simps)
qed

end
